theory Spec2Isabelle
  imports Complex_Main "HOL-Library.Word" "HOL-Library.Sublist"
begin

section \<open>Numeric model\<close>

text \<open>
  Time values (\<open>int64_t\<close>: timescales, trigger phases, sample offsets and durations,
  candidate offsets, skews) are 64-bit words; arithmetic on them wraps (signed overflow,
  undefined in C++, is taken as the wrap-around of the machine), \<open>sint\<close> reads a word as
  the signed value the source compares against zero, and the plain word order is the
  unsigned comparison the source makes once a \<open>size_t\<close> operand is involved.
  Array indices and counters that the source bounds by an array length
  (\<open>i\<close>, \<open>isecondary\<close>, \<open>samplesProcessed\<close>) are natural numbers, and enter word
  arithmetic through \<open>of_nat\<close>.

  A \<open>double\<close> is a finite value, one of the two infinities, or not-a-number; the
  \<open>float\<close> samples are values of the same type.  Finite arithmetic is carried out
  exactly: rounding, and with it the overflow of a finite result to an infinity, is not
  modelled.  The special values follow IEEE 754 as C++ uses it: \<open>0.0 / 0\<close> is
  not-a-number, and every ordered comparison with not-a-number is false.  Signed zeros
  are not distinguished: they compare equal, and the only divisor that can be zero here
  is a converted non-negative count.
\<close>

datatype dbl = NaN | NInf | Fin rat | PInf

fun dmul :: "dbl \<Rightarrow> dbl \<Rightarrow> dbl" where
  "dmul NaN _ = NaN"
| "dmul _ NaN = NaN"
| "dmul (Fin a) (Fin b) = Fin (a * b)"
| "dmul (Fin a) PInf = (if a = 0 then NaN else if 0 < a then PInf else NInf)"
| "dmul (Fin a) NInf = (if a = 0 then NaN else if 0 < a then NInf else PInf)"
| "dmul PInf (Fin b) = (if b = 0 then NaN else if 0 < b then PInf else NInf)"
| "dmul NInf (Fin b) = (if b = 0 then NaN else if 0 < b then NInf else PInf)"
| "dmul PInf PInf = PInf"
| "dmul PInf NInf = NInf"
| "dmul NInf PInf = NInf"
| "dmul NInf NInf = PInf"

fun dadd :: "dbl \<Rightarrow> dbl \<Rightarrow> dbl" where
  "dadd NaN _ = NaN"
| "dadd _ NaN = NaN"
| "dadd (Fin a) (Fin b) = Fin (a + b)"
| "dadd PInf NInf = NaN"
| "dadd NInf PInf = NaN"
| "dadd PInf _ = PInf"
| "dadd _ PInf = PInf"
| "dadd NInf _ = NInf"
| "dadd _ NInf = NInf"

text \<open>\<open>correlation / samplesProcessed\<close>: a double divided by a converted count.\<close>

fun ddiv :: "dbl \<Rightarrow> nat \<Rightarrow> dbl" where
  "ddiv NaN n = NaN"
| "ddiv PInf n = PInf"
| "ddiv NInf n = NInf"
| "ddiv (Fin a) n =
     (if n = 0 then (if a = 0 then NaN else if 0 < a then PInf else NInf)
      else Fin (a / of_nat n))"

text \<open>The comparison \<open>x > y\<close> on doubles.\<close>

fun dgt :: "dbl \<Rightarrow> dbl \<Rightarrow> bool" where
  "dgt NaN _ = False"
| "dgt _ NaN = False"
| "dgt PInf PInf = False"
| "dgt PInf _ = True"
| "dgt _ PInf = False"
| "dgt NInf _ = False"
| "dgt (Fin a) NInf = True"
| "dgt (Fin a) (Fin b) = (b < a)"

text \<open>\<open>x <= y\<close> on doubles, used to state that a history is non-decreasing.\<close>

definition dle :: "dbl \<Rightarrow> dbl \<Rightarrow> bool" where
  "dle x y = (x \<noteq> NaN \<and> y \<noteq> NaN \<and> \<not> dgt x y)"

section \<open>Waveform model\<close>

text \<open>
  The fields the wizard reads.  A sparse analog waveform carries per-sample offsets and
  durations next to its samples; the uniform one has samples only.  The stream hands out
  a base-class pointer, which the wizard inspects by \<open>dynamic_cast\<close>: that is the
  datatype \<open>Waveform\<close>, whose third case stands for any other waveform class.
\<close>

record WaveformBase =
  m_timescale :: "64 word"
  m_triggerPhase :: "64 word"
  m_startTimestamp :: "64 word"
  m_startFemtoseconds :: "64 word"

record AnalogWaveform = WaveformBase +
  m_samples :: "dbl list"

type_synonym UniformAnalogWaveform = AnalogWaveform

record SparseAnalogWaveform = AnalogWaveform +
  m_offsets :: "64 word list"
  m_durations :: "64 word list"

datatype Waveform =
    Uniform UniformAnalogWaveform
  | Sparse SparseAnalogWaveform
  | Other WaveformBase

definition size_w :: "'a AnalogWaveform_scheme \<Rightarrow> nat" where
  "size_w w = length (m_samples w)"

fun startTimestampOf :: "Waveform \<Rightarrow> 64 word" where
  "startTimestampOf (Uniform w) = m_startTimestamp w"
| "startTimestampOf (Sparse w) = m_startTimestamp w"
| "startTimestampOf (Other w) = m_startTimestamp w"

fun startFemtosecondsOf :: "Waveform \<Rightarrow> 64 word" where
  "startFemtosecondsOf (Uniform w) = m_startFemtoseconds w"
| "startFemtosecondsOf (Sparse w) = m_startFemtoseconds w"
| "startFemtosecondsOf (Other w) = m_startFemtoseconds w"

text \<open>
  An array read.  Reading past the end is undefined behaviour in the source; the model
  makes it the error \<open>OutOfBounds\<close>, which aborts the whole computation.
\<close>

datatype error = OutOfBounds

definition readAt :: "'a list \<Rightarrow> nat \<Rightarrow> 'a option" where
  "readAt xs i = (if i < length xs then Some (xs ! i) else None)"

section \<open>Correlation, uniform/uniform CPU path\<close>

text \<open>
  The cursor-advance loop of \<open>DoProcessWaveformUniformUnequalRate\<close>:
  \<^verbatim>\<open>while( ((isecondary + 1) * psec->m_timescale) < utarget )
  { isecondary ++; if(isecondary >= slen) { done = true; break; } }\<close>
  It returns the cursor and the flag \<open>done\<close>.
\<close>

function skipUniform :: "64 word \<Rightarrow> nat \<Rightarrow> 64 word \<Rightarrow> nat \<Rightarrow> nat \<times> bool" where
  "skipUniform tsSec slen utarget isecondary =
     (if of_nat (isecondary + 1) * tsSec < utarget
      then (if slen \<le> isecondary + 1 then (isecondary + 1, True)
            else skipUniform tsSec slen utarget (isecondary + 1))
      else (isecondary, False))"
  by pat_completeness auto
termination
  by (relation "measure (\<lambda>(tsSec, slen, utarget, isecondary). slen - isecondary)") auto

definition targetUniform :: "UniformAnalogWaveform \<Rightarrow> 64 word \<Rightarrow> nat \<Rightarrow> 64 word" where
  "targetUniform ppri deltaFs i = of_nat i * m_timescale ppri + deltaFs"

text \<open>
  The loop over the primary samples, from sample \<open>i\<close> on, with the cursor and the two
  accumulators as they stand.  The result is \<open>(correlation, samplesProcessed)\<close>.
\<close>

function loopUniform ::
  "UniformAnalogWaveform \<Rightarrow> UniformAnalogWaveform \<Rightarrow> 64 word \<Rightarrow> nat \<Rightarrow> nat \<Rightarrow> dbl \<Rightarrow> nat
    \<Rightarrow> error + (dbl \<times> nat)" where
  "loopUniform ppri psec deltaFs i isecondary correlation samplesProcessed =
     (if i < size_w ppri then
        (if sint (targetUniform ppri deltaFs i) < 0
         then loopUniform ppri psec deltaFs (i + 1) isecondary correlation samplesProcessed
         else if snd (skipUniform (m_timescale psec) (size_w psec)
                        (targetUniform ppri deltaFs i) isecondary)
         then Inr (correlation, samplesProcessed)
         else (case readAt (m_samples ppri) i of
                 None \<Rightarrow> Inl OutOfBounds
               | Some a \<Rightarrow>
                   (case readAt (m_samples psec)
                           (fst (skipUniform (m_timescale psec) (size_w psec)
                                  (targetUniform ppri deltaFs i) isecondary)) of
                      None \<Rightarrow> Inl OutOfBounds
                    | Some b \<Rightarrow>
                        loopUniform ppri psec deltaFs (i + 1)
                          (fst (skipUniform (m_timescale psec) (size_w psec)
                                 (targetUniform ppri deltaFs i) isecondary))
                          (dadd correlation (dmul a b)) (samplesProcessed + 1))))
      else Inr (correlation, samplesProcessed))"
  by pat_completeness auto
termination
  by (relation "measure (\<lambda>(ppri, psec, deltaFs, i, isecondary, correlation, samplesProcessed).
        size_w ppri - i)") auto

definition deltaFsUniform ::
  "UniformAnalogWaveform \<Rightarrow> UniformAnalogWaveform \<Rightarrow> 64 word \<Rightarrow> 64 word" where
  "deltaFsUniform ppri psec d =
     m_timescale ppri * d + (m_triggerPhase ppri - m_triggerPhase psec)"

definition candidateUniform ::
  "UniformAnalogWaveform \<Rightarrow> UniformAnalogWaveform \<Rightarrow> 64 word \<Rightarrow> error + (dbl \<times> nat)" where
  "candidateUniform ppri psec d =
     loopUniform ppri psec (deltaFsUniform ppri psec d) 0 0 (Fin 0) 0"

section \<open>Correlation, sparse/sparse CPU path\<close>

definition endSparse :: "SparseAnalogWaveform \<Rightarrow> nat \<Rightarrow> 64 word option" where
  "endSparse psec isecondary =
     (case readAt (m_offsets psec) isecondary of
        None \<Rightarrow> None
      | Some off \<Rightarrow>
          (case readAt (m_durations psec) isecondary of
             None \<Rightarrow> None
           | Some dur \<Rightarrow> Some ((off + dur) * m_timescale psec + m_triggerPhase psec)))"

text \<open>
  The cursor-advance loop of \<open>DoProcessWaveformSparse\<close>.  Its condition reads the
  secondary's offset and duration at the cursor before anything compares the cursor with
  \<open>slen\<close>.
\<close>

function skipSparse ::
  "SparseAnalogWaveform \<Rightarrow> nat \<Rightarrow> 64 word \<Rightarrow> nat \<Rightarrow> error + (nat \<times> bool)" where
  "skipSparse psec slen target isecondary =
     (case endSparse psec isecondary of
        None \<Rightarrow> Inl OutOfBounds
      | Some e \<Rightarrow>
          (if sint e < sint target
           then (if slen \<le> isecondary + 1 then Inr (isecondary + 1, True)
                 else skipSparse psec slen target (isecondary + 1))
           else Inr (isecondary, False)))"
  by pat_completeness auto
termination
  by (relation "measure (\<lambda>(psec, slen, target, isecondary). slen - isecondary)") auto

definition deltaFsSparse :: "SparseAnalogWaveform \<Rightarrow> 64 word \<Rightarrow> 64 word" where
  "deltaFsSparse ppri d = m_timescale ppri * d"

definition startSparse :: "SparseAnalogWaveform \<Rightarrow> nat \<Rightarrow> 64 word option" where
  "startSparse ppri i =
     (case readAt (m_offsets ppri) i of
        None \<Rightarrow> None
      | Some off \<Rightarrow> Some (off * m_timescale ppri + m_triggerPhase ppri))"

function loopSparse ::
  "SparseAnalogWaveform \<Rightarrow> SparseAnalogWaveform \<Rightarrow> 64 word \<Rightarrow> nat \<Rightarrow> nat \<Rightarrow> dbl \<Rightarrow> nat
    \<Rightarrow> error + (dbl \<times> nat)" where
  "loopSparse ppri psec deltaFs i isecondary correlation samplesProcessed =
     (if i < size_w ppri then
        (case startSparse ppri i of
           None \<Rightarrow> Inl OutOfBounds
         | Some start \<Rightarrow>
             (if sint (start + deltaFs) < 0
              then loopSparse ppri psec deltaFs (i + 1) isecondary correlation samplesProcessed
              else (case skipSparse psec (size_w psec) (start + deltaFs) isecondary of
                      Inl err \<Rightarrow> Inl err
                    | Inr (isecondary', done) \<Rightarrow>
                        (if done then Inr (correlation, samplesProcessed)
                         else (case readAt (m_samples ppri) i of
                                 None \<Rightarrow> Inl OutOfBounds
                               | Some a \<Rightarrow>
                                   (case readAt (m_samples psec) isecondary' of
                                      None \<Rightarrow> Inl OutOfBounds
                                    | Some b \<Rightarrow>
                                        loopSparse ppri psec deltaFs (i + 1) isecondary'
                                          (dadd correlation (dmul a b))
                                          (samplesProcessed + 1)))))))
      else Inr (correlation, samplesProcessed))"
  by pat_completeness auto
termination
  by (relation "measure (\<lambda>(ppri, psec, deltaFs, i, isecondary, correlation, samplesProcessed).
        size_w ppri - i)") auto

definition candidateSparse ::
  "SparseAnalogWaveform \<Rightarrow> SparseAnalogWaveform \<Rightarrow> 64 word \<Rightarrow> error + (dbl \<times> nat)" where
  "candidateSparse ppri psec d = loopSparse ppri psec (deltaFsSparse ppri d) 0 0 (Fin 0) 0"

section \<open>The wizard\<close>

text \<open>
  The members of the dialog that the measurement uses.  The class declaration is not
  part of the source file, so the types follow the use: the trial counter and the window
  size are integers, the trigger timestamps and the best offset are 64-bit words.

  The calls the wizard makes on its collaborators are kept in one more field, \<open>events\<close>,
  in the order they are made: arming the trigger group for a single shot, submitting the
  compute job, and the log messages
  (\<open>TraceStarting\<close>: "Starting"; \<open>TraceAcquired\<close>: "Acquired waveform %d, starting
  correlation"; \<open>TraceAcquiringNext\<close>: "Acquiring next waveform"; \<open>TraceBest\<close>:
  "Best correlation = ..."; \<open>TraceCpuEvaluated\<close>: "Correlation evaluated in ...";
  \<open>TraceGpuEvaluated\<close>: "GPU correlation evaluated in ...";
  \<open>ErrorMixed\<close>: "Mixed sparse and uniform waveforms not implemented").
\<close>

datatype State =
    STATE_WELCOME_1 | STATE_WELCOME_2 | STATE_WELCOME_3 | STATE_WELCOME_4 | STATE_WELCOME_5
  | STATE_ACQUIRE | STATE_CORRELATE | STATE_DONE

datatype Event =
    ArmSingle | SubmitAndBlock
  | TraceStarting | TraceAcquired | TraceAcquiringNext | TraceBest
  | TraceCpuEvaluated | TraceGpuEvaluated | ErrorMixed

record ScopeDeskewWizard =
  m_state :: State
  m_measureCycle :: int
  m_lastTriggerTimestamp :: "64 word"
  m_lastTriggerFs :: "64 word"
  m_bestCorrelation :: dbl
  m_bestCorrelationOffset :: "64 word"
  m_maxSkewSamples :: int
  m_correlations :: "dbl list"
  m_skews :: "64 word list"
  events :: "Event list"

record UniformUnequalCrossCorrelateArgs =
  priTimescale :: "64 word"
  secTimescale :: "64 word"
  priTrigPhase :: "64 word"
  secTrigPhase :: "64 word"
  priLen :: nat
  secLen :: nat
  startingDelta :: "64 word"

text \<open>
  What one frame of the user interface sees of the world: whether the button of the
  current page was clicked, whether \<open>ImGui::BeginTable\<close> reports the progress table as
  visible (its rows are drawn only then), what the two streams hold, the two capability
  flags of the compute device, the contents of the output buffer once the compute job has
  run (the shader is not part of this file, so its result is a parameter), and the order
  in which the workers of the parallel loop reach the guarded update (a rank for each
  candidate offset: the candidates are taken in the order of their ranks).
\<close>

record Env =
  buttonClicked :: bool
  tableVisible :: bool
  primaryData :: "Waveform option"
  secondaryData :: "Waveform option"
  g_hasShaderInt64 :: bool
  g_hasShaderFloat64 :: bool
  corrOutAfterJob :: "UniformUnequalCrossCorrelateArgs \<Rightarrow> dbl list \<Rightarrow> dbl list \<Rightarrow> nat \<Rightarrow> dbl"
  ompRank :: "64 word \<Rightarrow> nat"

definition ScopeDeskewWizard_ctor :: ScopeDeskewWizard where
  "ScopeDeskewWizard_ctor =
     \<lparr> m_state = STATE_WELCOME_1,
       m_measureCycle = 0,
       m_lastTriggerTimestamp = 0,
       m_lastTriggerFs = 0,
       m_bestCorrelation = Fin 0,
       m_bestCorrelationOffset = 0,
       m_maxSkewSamples = 30000,
       m_correlations = [],
       m_skews = [],
       events = [] \<rparr>"

definition nWaveforms :: int where
  "nWaveforms = 10"

subsection \<open>The reduction over the candidate offsets\<close>

text \<open>The candidates \<open>d = -m_maxSkewSamples, ..., m_maxSkewSamples - 1\<close>.\<close>

definition searchWindow :: "int \<Rightarrow> 64 word list" where
  "searchWindow m = map word_of_int [- m ..  m - 1]"

text \<open>
  The loop over \<open>d\<close> is an OpenMP parallel loop.  Each iteration reads the two waveforms
  and its own local variables only, and ends with an update of the running best under a
  mutex, so a run is the sequence of these updates in the order the lock was taken: some
  reordering of the window.
\<close>

definition ompSchedule :: "(64 word \<Rightarrow> nat) \<Rightarrow> int \<Rightarrow> 64 word list" where
  "ompSchedule rank m = sort_key rank (searchWindow m)"

definition updateBest :: "dbl \<Rightarrow> 64 word \<Rightarrow> ScopeDeskewWizard \<Rightarrow> ScopeDeskewWizard" where
  "updateBest normalizedCorrelation d s =
     (if dgt normalizedCorrelation (m_bestCorrelation s)
      then s\<lparr> m_bestCorrelation := normalizedCorrelation, m_bestCorrelationOffset := d \<rparr>
      else s)"

fun reduceCandidates ::
  "(64 word \<Rightarrow> error + (dbl \<times> nat)) \<Rightarrow> 64 word list \<Rightarrow> ScopeDeskewWizard
    \<Rightarrow> error + ScopeDeskewWizard" where
  "reduceCandidates candidate [] s = Inr s"
| "reduceCandidates candidate (d # ds) s =
     (case candidate d of
        Inl err \<Rightarrow> Inl err
      | Inr (correlation, samplesProcessed) \<Rightarrow>
          reduceCandidates candidate ds (updateBest (ddiv correlation samplesProcessed) d s))"

definition logEvents :: "Event list \<Rightarrow> ScopeDeskewWizard \<Rightarrow> ScopeDeskewWizard" where
  "logEvents es s = s\<lparr> events := events s @ es \<rparr>"

definition DoProcessWaveformSparse ::
  "64 word list \<Rightarrow> SparseAnalogWaveform \<Rightarrow> SparseAnalogWaveform \<Rightarrow> ScopeDeskewWizard
    \<Rightarrow> error + ScopeDeskewWizard" where
  "DoProcessWaveformSparse schedule ppri psec s =
     reduceCandidates (candidateSparse ppri psec) schedule s"

definition DoProcessWaveformUniformUnequalRate ::
  "64 word list \<Rightarrow> UniformAnalogWaveform \<Rightarrow> UniformAnalogWaveform \<Rightarrow> ScopeDeskewWizard
    \<Rightarrow> error + ScopeDeskewWizard" where
  "DoProcessWaveformUniformUnequalRate schedule ppri psec s =
     (case reduceCandidates (candidateUniform ppri psec) schedule s of
        Inl err \<Rightarrow> Inl err
      | Inr s' \<Rightarrow> Inr (logEvents [TraceCpuEvaluated] s'))"

subsection \<open>The accelerator path: host side\<close>

definition mkArgs ::
  "UniformAnalogWaveform \<Rightarrow> UniformAnalogWaveform \<Rightarrow> 64 word \<Rightarrow> UniformUnequalCrossCorrelateArgs"
  where
  "mkArgs ppri psec delta =
     \<lparr> priTimescale = m_timescale ppri,
       secTimescale = m_timescale psec,
       priTrigPhase = m_triggerPhase ppri,
       secTrigPhase = m_triggerPhase psec,
       priLen = size_w ppri,
       secLen = size_w psec,
       startingDelta = delta \<rparr>"

text \<open>One step of the scan of the output buffer, at index \<open>i\<close>.\<close>

definition crunchStep :: "(nat \<Rightarrow> dbl) \<Rightarrow> int \<Rightarrow> nat \<Rightarrow> dbl \<times> 64 word \<Rightarrow> dbl \<times> 64 word" where
  "crunchStep corrOut m i best =
     (if dgt (corrOut i) (fst best) then (corrOut i, word_of_int (int i - m)) else best)"

definition crunchResults :: "(nat \<Rightarrow> dbl) \<Rightarrow> int \<Rightarrow> dbl \<times> 64 word" where
  "crunchResults corrOut m = fold (crunchStep corrOut m) [0 ..< nat (2 * m)] (Fin 0, 0)"

definition DoProcessWaveformUniformUnequalRateVulkan ::
  "Env \<Rightarrow> UniformAnalogWaveform \<Rightarrow> UniformAnalogWaveform \<Rightarrow> ScopeDeskewWizard
    \<Rightarrow> ScopeDeskewWizard" where
  "DoProcessWaveformUniformUnequalRateVulkan env ppri psec s =
     logEvents [TraceGpuEvaluated]
       ((logEvents [SubmitAndBlock] s)
          \<lparr> m_bestCorrelation :=
              fst (crunchResults
                    (corrOutAfterJob env
                       (mkArgs ppri psec (word_of_int (- m_maxSkewSamples s)))
                       (m_samples ppri) (m_samples psec))
                    (m_maxSkewSamples s)),
            m_bestCorrelationOffset :=
              snd (crunchResults
                    (corrOutAfterJob env
                       (mkArgs ppri psec (word_of_int (- m_maxSkewSamples s)))
                       (m_samples ppri) (m_samples psec))
                    (m_maxSkewSamples s)) \<rparr>)"

subsection \<open>One trial\<close>

text \<open>The tail of \<open>StartCorrelation\<close>: the skew of this round goes into the history.\<close>

definition collectSkew :: "64 word \<Rightarrow> ScopeDeskewWizard \<Rightarrow> ScopeDeskewWizard" where
  "collectSkew timescale s =
     (logEvents [TraceBest] s)
       \<lparr> m_correlations := m_correlations s @ [m_bestCorrelation s],
         m_skews := m_skews s @ [m_bestCorrelationOffset s * timescale] \<rparr>"

fun StartCorrelation :: "Env \<Rightarrow> ScopeDeskewWizard \<Rightarrow> error + ScopeDeskewWizard" where
  "StartCorrelation env s =
     (case (primaryData env, secondaryData env) of
        (Some (Uniform upri), Some (Uniform usec)) \<Rightarrow>
          (if g_hasShaderInt64 env \<and> g_hasShaderFloat64 env
           then Inr (collectSkew (m_timescale upri)
                      (DoProcessWaveformUniformUnequalRateVulkan env upri usec s))
           else (case DoProcessWaveformUniformUnequalRate
                        (ompSchedule (ompRank env) (m_maxSkewSamples s)) upri usec s of
                   Inl err \<Rightarrow> Inl err
                 | Inr s' \<Rightarrow> Inr (collectSkew (m_timescale upri) s')))
      | (Some (Sparse spri), Some (Sparse ssec)) \<Rightarrow>
          (case DoProcessWaveformSparse
                  (ompSchedule (ompRank env) (m_maxSkewSamples s)) spri ssec s of
             Inl err \<Rightarrow> Inl err
           | Inr s' \<Rightarrow> Inr (collectSkew (m_timescale spri) s'))
      | _ \<Rightarrow> Inr (logEvents [ErrorMixed] s))"

subsection \<open>The control loop\<close>

text \<open>
  The rows of the progress table for the past measurements:
  \<^verbatim>\<open>for(int i=0; i<m_measureCycle; i++) { ... m_skews[i] ... m_correlations[i] ... }\<close>
  Each row reads both histories at the index of its trial; the result is the error of the
  first read past the end of a history, if there is one.  (The rows of the current and
  of the future measurements read nothing.)
\<close>

fun pastMeasurements :: "ScopeDeskewWizard \<Rightarrow> nat list \<Rightarrow> error option" where
  "pastMeasurements s [] = None"
| "pastMeasurements s (i # rows) =
     (case readAt (m_skews s) i of
        None \<Rightarrow> Some OutOfBounds
      | Some skew \<Rightarrow>
          (case readAt (m_correlations s) i of
             None \<Rightarrow> Some OutOfBounds
           | Some correlation \<Rightarrow> pastMeasurements s rows))"

definition drawProgressTable :: "Env \<Rightarrow> ScopeDeskewWizard \<Rightarrow> error option" where
  "drawProgressTable env s =
     (if tableVisible env then pastMeasurements s [0 ..< nat (m_measureCycle s)] else None)"

text \<open>
  \<open>DoMainProcessingFlow\<close>: the progress table is drawn, then the state machine takes its
  step.
\<close>

fun DoMainProcessingFlow :: "Env \<Rightarrow> ScopeDeskewWizard \<Rightarrow> error + ScopeDeskewWizard" where
  "DoMainProcessingFlow env s =
     (case drawProgressTable env s of
        Some err \<Rightarrow> Inl err
      | None \<Rightarrow>
          (case m_state s of
             STATE_ACQUIRE \<Rightarrow>
               (case primaryData env of
                  None \<Rightarrow> Inr s
                | Some data \<Rightarrow>
                    (if m_lastTriggerTimestamp s = startTimestampOf data
                         \<and> m_lastTriggerFs s = startFemtosecondsOf data
                     then Inr s
                     else (case StartCorrelation env
                                  (logEvents [TraceAcquired]
                                    (s\<lparr> m_lastTriggerTimestamp := startTimestampOf data,
                                        m_lastTriggerFs := startFemtosecondsOf data \<rparr>)) of
                             Inl err \<Rightarrow> Inl err
                           | Inr s' \<Rightarrow> Inr (s'\<lparr> m_state := STATE_CORRELATE \<rparr>))))
           | STATE_CORRELATE \<Rightarrow>
               (if nWaveforms \<le> m_measureCycle s + 1
                then Inr (s\<lparr> m_measureCycle := m_measureCycle s + 1, m_state := STATE_DONE \<rparr>)
                else Inr ((logEvents [TraceAcquiringNext, ArmSingle] s)
                            \<lparr> m_measureCycle := m_measureCycle s + 1,
                              m_state := STATE_ACQUIRE \<rparr>))
           | _ \<Rightarrow> Inr s))"

text \<open>
  \<open>DoRender\<close>, one frame.  The pages before the measurement only wait for their button;
  the last of them starts the measurement.  (The text of the pages, the channel selectors
  and the reference-clock check boxes are left out.)
\<close>

fun DoRender :: "Env \<Rightarrow> ScopeDeskewWizard \<Rightarrow> error + ScopeDeskewWizard" where
  "DoRender env s =
     (case m_state s of
        STATE_WELCOME_1 \<Rightarrow>
          Inr (if buttonClicked env then s\<lparr> m_state := STATE_WELCOME_2 \<rparr> else s)
      | STATE_WELCOME_2 \<Rightarrow>
          Inr (if buttonClicked env then s\<lparr> m_state := STATE_WELCOME_3 \<rparr> else s)
      | STATE_WELCOME_3 \<Rightarrow>
          Inr (if buttonClicked env then s\<lparr> m_state := STATE_WELCOME_4 \<rparr> else s)
      | STATE_WELCOME_4 \<Rightarrow>
          Inr (if buttonClicked env then s\<lparr> m_state := STATE_WELCOME_5 \<rparr> else s)
      | STATE_WELCOME_5 \<Rightarrow>
          Inr (if buttonClicked env
               then logEvents [ArmSingle]
                      (case primaryData env of
                         None \<Rightarrow> (logEvents [TraceStarting] s)\<lparr> m_state := STATE_ACQUIRE \<rparr>
                       | Some data \<Rightarrow>
                           (logEvents [TraceStarting] s)
                             \<lparr> m_state := STATE_ACQUIRE,
                               m_lastTriggerTimestamp := startTimestampOf data,
                               m_lastTriggerFs := startFemtosecondsOf data \<rparr>)
               else s)
      | _ \<Rightarrow> DoMainProcessingFlow env s)"

text \<open>A session: the frames in order, from the state the constructor leaves.\<close>

fun runFrames :: "Env list \<Rightarrow> ScopeDeskewWizard \<Rightarrow> error + ScopeDeskewWizard" where
  "runFrames [] s = Inr s"
| "runFrames (env # envs) s =
     (case DoRender env s of
        Inl err \<Rightarrow> Inl err
      | Inr s' \<Rightarrow> runFrames envs s')"

section \<open>Notions used to state the properties\<close>

text \<open>A candidate that matched no sample pair: its loop ended with \<open>samplesProcessed = 0\<close>.\<close>

definition zeroOverlap :: "error + (dbl \<times> nat) \<Rightarrow> bool" where
  "zeroOverlap r =
     (case r of Inl err \<Rightarrow> False | Inr (correlation, samplesProcessed) \<Rightarrow> samplesProcessed = 0)"

text \<open>A candidate function whose results with a zero count carry the sum zero.\<close>

definition zeroSum :: "(64 word \<Rightarrow> error + (dbl \<times> nat)) \<Rightarrow> bool" where
  "zeroSum candidate = (\<forall>d c. candidate d = Inr (c, 0) \<longrightarrow> c = Fin 0)"

text \<open>
  The time shift as the specification words it:
  \<open>d * primary.timescale + (primary.triggerPhase - secondary.triggerPhase)\<close>.
\<close>

definition specDeltaFs :: "64 word \<Rightarrow> 64 word \<Rightarrow> 64 word \<Rightarrow> 64 word \<Rightarrow> 64 word" where
  "specDeltaFs tsPri phasePri phaseSec d = d * tsPri + (phasePri - phaseSec)"

text \<open>
  The secondary index as the specification words it: the direct index
  \<open>target / secondary.timescale\<close>.
\<close>

definition directIndex :: "64 word \<Rightarrow> 64 word \<Rightarrow> nat" where
  "directIndex utarget tsSec = unat (utarget div tsSec)"

text \<open>A sparse waveform keeps one offset and one duration for each sample.\<close>

definition wellFormedSparse :: "SparseAnalogWaveform \<Rightarrow> bool" where
  "wellFormedSparse w =
     (length (m_offsets w) = length (m_samples w) \<and> length (m_durations w) = length (m_samples w))"

text \<open>Two states of the wizard that differ in the running best pair at most.\<close>

definition sameButBest :: "ScopeDeskewWizard \<Rightarrow> ScopeDeskewWizard \<Rightarrow> bool" where
  "sameButBest s s' =
     (m_state s' = m_state s \<and> m_measureCycle s' = m_measureCycle s
      \<and> m_lastTriggerTimestamp s' = m_lastTriggerTimestamp s
      \<and> m_lastTriggerFs s' = m_lastTriggerFs s
      \<and> m_maxSkewSamples s' = m_maxSkewSamples s
      \<and> m_correlations s' = m_correlations s \<and> m_skews s' = m_skews s
      \<and> events s' = events s)"

text \<open>The normalized correlation of no candidate of the list compares greater than \<open>best\<close>.\<close>

definition noneGreater ::
  "(64 word \<Rightarrow> error + (dbl \<times> nat)) \<Rightarrow> 64 word list \<Rightarrow> dbl \<Rightarrow> bool" where
  "noneGreater candidate ds best =
     list_all (\<lambda>d. case candidate d of
                     Inl err \<Rightarrow> True
                   | Inr (correlation, samplesProcessed) \<Rightarrow>
                       \<not> dgt (ddiv correlation samplesProcessed) best) ds"

text \<open>A pair of one uniform and one sparse waveform.\<close>

definition mixedRepresentation :: "Env \<Rightarrow> bool" where
  "mixedRepresentation env =
     (case (primaryData env, secondaryData env) of
        (Some (Uniform upri), Some (Sparse ssec)) \<Rightarrow> True
      | (Some (Sparse spri), Some (Uniform usec)) \<Rightarrow> True
      | _ \<Rightarrow> False)"

text \<open>
  The candidate function of a trial that runs on a CPU path, and the timescale of its
  primary waveform; \<open>None\<close> for a trial that runs on the accelerator or not at all.
\<close>

definition cpuCandidate :: "Env \<Rightarrow> ((64 word \<Rightarrow> error + (dbl \<times> nat)) \<times> 64 word) option" where
  "cpuCandidate env =
     (case (primaryData env, secondaryData env) of
        (Some (Uniform upri), Some (Uniform usec)) \<Rightarrow>
          (if g_hasShaderInt64 env \<and> g_hasShaderFloat64 env then None
           else Some (candidateUniform upri usec, m_timescale upri))
      | (Some (Sparse spri), Some (Sparse ssec)) \<Rightarrow>
          Some (candidateSparse spri ssec, m_timescale spri)
      | _ \<Rightarrow> None)"

text \<open>The events a state has logged beyond those of an earlier state.\<close>

definition newEvents :: "ScopeDeskewWizard \<Rightarrow> ScopeDeskewWizard \<Rightarrow> Event list" where
  "newEvents s s' = drop (length (events s)) (events s')"

text \<open>The data-arrival signature of a waveform, and the one the wizard has stored.\<close>

definition signatureOf :: "Waveform \<Rightarrow> 64 word \<times> 64 word" where
  "signatureOf data = (startTimestampOf data, startFemtosecondsOf data)"

definition storedSignature :: "ScopeDeskewWizard \<Rightarrow> 64 word \<times> 64 word" where
  "storedSignature s = (m_lastTriggerTimestamp s, m_lastTriggerFs s)"

text \<open>
  The history of correlations never decreases, stays below the running best, and ends
  with it.
\<close>

definition historyInv :: "ScopeDeskewWizard \<Rightarrow> bool" where
  "historyInv s =
     (m_bestCorrelation s \<noteq> NaN
      \<and> sorted_wrt dle (m_correlations s)
      \<and> (\<forall>c\<in>set (m_correlations s). dle c (m_bestCorrelation s))
      \<and> (m_correlations s \<noteq> [] \<longrightarrow> last (m_correlations s) = m_bestCorrelation s))"

text \<open>
  How the trial counter, the histories and the arm requests go together in each state,
  as long as no trial was aborted.
\<close>

definition trialCounts :: "ScopeDeskewWizard \<Rightarrow> bool" where
  "trialCounts s =
     (length (m_correlations s) = length (m_skews s)
      \<and> (case m_state s of
            STATE_ACQUIRE \<Rightarrow>
              0 \<le> m_measureCycle s \<and> m_measureCycle s < nWaveforms
              \<and> int (length (m_skews s)) = m_measureCycle s
              \<and> int (count_list (events s) ArmSingle) = m_measureCycle s + 1
          | STATE_CORRELATE \<Rightarrow>
              0 \<le> m_measureCycle s \<and> m_measureCycle s < nWaveforms
              \<and> int (length (m_skews s)) = m_measureCycle s + 1
              \<and> int (count_list (events s) ArmSingle) = m_measureCycle s + 1
          | STATE_DONE \<Rightarrow>
              m_measureCycle s = nWaveforms
              \<and> int (length (m_skews s)) = nWaveforms
              \<and> int (count_list (events s) ArmSingle) = nWaveforms
          | _ \<Rightarrow>
              m_measureCycle s = 0 \<and> m_skews s = []
              \<and> count_list (events s) ArmSingle = 0))"

text \<open>Both histories hold an entry for each trial the counter has counted.\<close>

definition historiesCover :: "ScopeDeskewWizard \<Rightarrow> bool" where
  "historiesCover s =
     (nat (m_measureCycle s) \<le> length (m_skews s)
      \<and> nat (m_measureCycle s) \<le> length (m_correlations s))"



text \<open>
  The running best correlation is a number, and a history that is not empty ends with
  it.
\<close>

definition bestRecorded :: "ScopeDeskewWizard \<Rightarrow> bool" where
  "bestRecorded s =
     (m_bestCorrelation s \<noteq> NaN
      \<and> (m_correlations s \<noteq> [] \<longrightarrow> last (m_correlations s) = m_bestCorrelation s))"

section \<open>Concrete inputs\<close>

text \<open>Waveforms with a given timescale, trigger phase, start timestamp and contents.\<close>

definition uniformWaveform ::
  "64 word \<Rightarrow> 64 word \<Rightarrow> 64 word \<Rightarrow> dbl list \<Rightarrow> UniformAnalogWaveform" where
  "uniformWaveform timescale triggerPhase stamp samples =
     \<lparr> m_timescale = timescale, m_triggerPhase = triggerPhase,
       m_startTimestamp = stamp, m_startFemtoseconds = 0, m_samples = samples \<rparr>"

definition sparseWaveform ::
  "64 word \<Rightarrow> 64 word \<Rightarrow> 64 word \<Rightarrow> 64 word list \<Rightarrow> 64 word list \<Rightarrow> dbl list
    \<Rightarrow> SparseAnalogWaveform" where
  "sparseWaveform timescale triggerPhase stamp offsets durations samples =
     \<lparr> m_timescale = timescale, m_triggerPhase = triggerPhase,
       m_startTimestamp = stamp, m_startFemtoseconds = 0, m_samples = samples,
       m_offsets = offsets, m_durations = durations \<rparr>"

text \<open>Two samples each, one femtosecond apart, no trigger phase.\<close>

definition uPri :: UniformAnalogWaveform where
  "uPri = uniformWaveform 1 0 1 [Fin 0, Fin 1]"

definition uSec :: UniformAnalogWaveform where
  "uSec = uniformWaveform 1 0 1 [Fin 5, Fin 7]"

definition sPri :: SparseAnalogWaveform where
  "sPri = sparseWaveform 1 0 1 [0, 1] [1, 1] [Fin 0, Fin 1]"

definition sSec :: SparseAnalogWaveform where
  "sSec = sparseWaveform 1 0 1 [0, 1] [1, 1] [Fin 5, Fin 7]"

text \<open>A sparse pair whose trigger phases differ by five femtoseconds.\<close>

definition sPriPhase :: SparseAnalogWaveform where
  "sPriPhase = sparseWaveform 1 5 1 [0, 1] [1, 1] [Fin 1, Fin 1]"

definition sSecPhase :: SparseAnalogWaveform where
  "sSecPhase = sparseWaveform 1 0 1 [0, 5, 10] [5, 5, 5] [Fin 1, Fin 2, Fin 4]"

text \<open>A secondary with three samples, two femtoseconds apart.\<close>

definition uSecSlow :: UniformAnalogWaveform where
  "uSecSlow = uniformWaveform 2 0 1 [Fin 5, Fin 7, Fin 9]"

text \<open>Waveforms without samples.\<close>

definition uEmpty :: UniformAnalogWaveform where
  "uEmpty = uniformWaveform 1 0 1 []"

definition sEmpty :: SparseAnalogWaveform where
  "sEmpty = sparseWaveform 1 0 1 [] [] []"

text \<open>
  A uniform pair that never overlaps in time inside the search window: the secondary's
  trigger phase is a microsecond, the primary's is zero.
\<close>

definition uPriEarly :: UniformAnalogWaveform where
  "uPriEarly = uniformWaveform 1 0 1 [Fin 1, Fin 2]"

definition uSecLate :: UniformAnalogWaveform where
  "uSecLate = uniformWaveform 1 1000000000 1 [Fin 5, Fin 7]"

text \<open>A sparse primary that lies a microsecond before its trigger.\<close>

definition sPriEarly :: SparseAnalogWaveform where
  "sPriEarly = sparseWaveform 1 (- 1000000000) 1 [0, 1] [1, 1] [Fin 1, Fin 2]"

text \<open>
  A frame of the user interface: the button, the two streams, the two capability flags,
  and the value that fills the output buffer of the compute job.  The progress table is
  visible, and the workers of the parallel loop take the lock in the order of the window.
\<close>

definition frame ::
  "bool \<Rightarrow> Waveform option \<Rightarrow> Waveform option \<Rightarrow> bool \<Rightarrow> bool \<Rightarrow> dbl \<Rightarrow> Env" where
  "frame clicked pri sec int64 float64 fill =
     \<lparr> buttonClicked = clicked, tableVisible = True, primaryData = pri, secondaryData = sec,
       g_hasShaderInt64 = int64, g_hasShaderFloat64 = float64,
       corrOutAfterJob = (\<lambda>args priSamples secSamples i. fill),
       ompRank = (\<lambda>d. 0) \<rparr>"

text \<open>The wizard as constructed, but with a window of two samples to each side.\<close>

definition smallWizard :: ScopeDeskewWizard where
  "smallWizard = ScopeDeskewWizard_ctor\<lparr> m_maxSkewSamples := 2 \<rparr>"

text \<open>
  A uniform pair on a device with both shader capabilities (whose job fills the output
  buffer with the value 3), and on a device that lacks double-precision floats.
\<close>

definition gpuFrame :: Env where
  "gpuFrame = frame False (Some (Uniform uPri)) (Some (Uniform uSec)) True True (Fin 3)"


text \<open>
  The small wizard while it waits for the first waveform, having seen the signature
  \<open>(1, 0)\<close>; a frame without data; a frame whose primary waveform carries the new
  signature \<open>(2, 0)\<close>.
\<close>

definition acquiring :: ScopeDeskewWizard where
  "acquiring = smallWizard\<lparr> m_state := STATE_ACQUIRE, m_lastTriggerTimestamp := 1 \<rparr>"

definition idleFrame :: Env where
  "idleFrame = frame False None None False False NaN"


text \<open>
  A session on the small wizard: five clicks lead through the pages and start the
  measurement; then, ten times, a frame brings a uniform pair with a new signature and
  the next frame finds the correlation done.
\<close>

definition clickFrame :: Env where
  "clickFrame = frame True None None False False NaN"

definition dataFrame :: "64 word \<Rightarrow> Env" where
  "dataFrame stamp =
     frame False (Some (Uniform (uniformWaveform 1 0 stamp [Fin 0, Fin 1])))
       (Some (Uniform uSec)) False False NaN"

definition tenTrials :: "Env list" where
  "tenTrials =
     replicate 5 clickFrame
     @ concat (map (\<lambda>stamp. [dataFrame stamp, idleFrame]) [1, 2, 3, 4, 5, 6, 7, 8, 9, 10])"

text \<open>
  The five clicks that lead through the pages and start the measurement, and a frame that
  brings a second pair, with a new signature, whose correlation is lower at every offset.
\<close>

definition fiveClicks :: "Env list" where
  "fiveClicks = replicate 5 clickFrame"

definition uPriSecond :: UniformAnalogWaveform where
  "uPriSecond = uniformWaveform 1 0 2 [Fin 0, Fin 1]"

definition uSecSecond :: UniformAnalogWaveform where
  "uSecSecond = uniformWaveform 1 0 2 [Fin 1, Fin 1]"

definition staleFrame :: Env where
  "staleFrame =
     frame False (Some (Uniform uPriSecond)) (Some (Uniform uSecSecond)) False False NaN"

text \<open>A frame that brings a uniform primary and a sparse secondary, with a new signature.\<close>

definition mixedFrame :: Env where
  "mixedFrame = frame False (Some (Uniform uPriSecond)) (Some (Sparse sSec)) True True NaN"


text \<open>
  A session on the constructed wizard: five clicks, then a frame with a uniform primary
  and a sparse secondary, then frames without data.
\<close>

definition abortedTrial :: "Env list" where
  "abortedTrial = fiveClicks @ [mixedFrame, idleFrame]"





text \<open>
  A frame that brings, with a new signature, a uniform pair whose primary has the
  timescale 1000 and whose correlation is lower than 5 at every offset.
\<close>

definition uPriSlow :: UniformAnalogWaveform where
  "uPriSlow = uniformWaveform 1000 0 2 [Fin 0, Fin 1]"

definition slowFrame :: Env where
  "slowFrame =
     frame False (Some (Uniform uPriSlow)) (Some (Uniform uSecSecond)) False False NaN"

text \<open>
  Three frames with the signatures \<open>(1, 0)\<close>, \<open>(2, 0)\<close> and \<open>(3, 0)\<close>: a sparse pair whose
  best correlation is 5, a uniform pair on a device with both shader capabilities whose
  job fills the output buffer with the value 3, and a sparse pair whose best correlation
  is 4.
\<close>

definition sparseFrame :: Env where
  "sparseFrame = frame False (Some (Sparse sPri)) (Some (Sparse sSec)) False False NaN"

definition gpuSecondFrame :: Env where
  "gpuSecondFrame =
     frame False (Some (Uniform uPriSecond)) (Some (Uniform uSecSecond)) True True (Fin 3)"

definition sPriThird :: SparseAnalogWaveform where
  "sPriThird = sparseWaveform 1 0 3 [0, 1] [1, 1] [Fin 0, Fin 1]"

definition sSecThird :: SparseAnalogWaveform where
  "sSecThird = sparseWaveform 1 0 3 [0, 1] [1, 1] [Fin 4, Fin 4]"

definition sparseThirdFrame :: Env where
  "sparseThirdFrame =
     frame False (Some (Sparse sPriThird)) (Some (Sparse sSecThird)) False False NaN"

definition mixedBackends :: "Env list" where
  "mixedBackends =
     fiveClicks @ [sparseFrame, idleFrame, gpuSecondFrame, idleFrame, sparseThirdFrame]"

text \<open>
  A uniform pair whose primary has the trigger phase 5 and whose secondary has samples
  five femtoseconds apart.
\<close>

definition uPriPhase :: UniformAnalogWaveform where
  "uPriPhase = uniformWaveform 1 5 1 [Fin 1, Fin 1]"

definition uSecPhase :: UniformAnalogWaveform where
  "uSecPhase = uniformWaveform 5 0 1 [Fin 1, Fin 2, Fin 4]"

section \<open>Facts about doubles\<close>

text \<open>The loops are unfolded by hand, one iteration at a time.\<close>

declare skipUniform.simps [simp del] loopUniform.simps [simp del]
  skipSparse.simps [simp del] loopSparse.simps [simp del]

lemma dgt_NaN_right [simp]: "dgt x NaN = False"
  by (cases x) simp_all

lemma dgt_irrefl [simp]: "\<not> dgt x x"
  by (cases x) simp_all

lemma dgt_not_NaN: "dgt x y \<Longrightarrow> x \<noteq> NaN \<and> y \<noteq> NaN"
  by (cases x; cases y) simp_all

lemma dle_refl: "x \<noteq> NaN \<Longrightarrow> dle x x"
  by (simp add: dle_def)

lemma dle_trans: "dle x y \<Longrightarrow> dle y z \<Longrightarrow> dle x z"
  by (cases x; cases y; cases z) (simp_all add: dle_def)

lemma dgt_imp_dle: "dgt y x \<Longrightarrow> dle x y"
  by (cases x; cases y) (simp_all add: dle_def)

section \<open>Candidates without overlap\<close>

lemma loopUniform_count:
  "loopUniform ppri psec deltaFs i isecondary correlation samplesProcessed = Inr (c, n)
    \<Longrightarrow> samplesProcessed \<le> n \<and> (n = samplesProcessed \<longrightarrow> c = correlation)"
proof (induction ppri psec deltaFs i isecondary correlation samplesProcessed
    rule: loopUniform.induct)
  case (1 ppri psec deltaFs i isecondary correlation samplesProcessed)
  show ?case
    using "1.prems" "1.IH"
    by (subst (asm) loopUniform.simps) (fastforce split: if_splits option.splits)
qed

lemma loopSparse_count:
  "loopSparse ppri psec deltaFs i isecondary correlation samplesProcessed = Inr (c, n)
    \<Longrightarrow> samplesProcessed \<le> n \<and> (n = samplesProcessed \<longrightarrow> c = correlation)"
proof (induction ppri psec deltaFs i isecondary correlation samplesProcessed
    rule: loopSparse.induct)
  case (1 ppri psec deltaFs i isecondary correlation samplesProcessed)
  show ?case
    using "1.prems" "1.IH"
    by (subst (asm) loopSparse.simps)
       (fastforce split: if_splits option.splits sum.splits prod.splits)
qed

lemma candidateUniform_zero: "candidateUniform ppri psec d = Inr (c, 0) \<Longrightarrow> c = Fin 0"
  using loopUniform_count [of ppri psec _ 0 0 "Fin 0" 0 c 0]
  by (simp add: candidateUniform_def)

lemma candidateSparse_zero: "candidateSparse ppri psec d = Inr (c, 0) \<Longrightarrow> c = Fin 0"
  using loopSparse_count [of ppri psec _ 0 0 "Fin 0" 0 c 0]
  by (simp add: candidateSparse_def)

lemma updateBest_NaN: "updateBest NaN d s = s"
  by (simp add: updateBest_def)

lemma zeroSum_uniform: "zeroSum (candidateUniform ppri psec)"
  by (auto simp: zeroSum_def dest: candidateUniform_zero)

lemma zeroSum_sparse: "zeroSum (candidateSparse ppri psec)"
  by (auto simp: zeroSum_def dest: candidateSparse_zero)

lemma zeroOverlap_update:
  assumes "zeroSum candidate" and "candidate d = Inr (c, 0)"
  shows "updateBest (ddiv c 0) d s = s"
proof -
  from assms have "c = Fin 0" by (auto simp: zeroSum_def)
  then show ?thesis by (simp add: updateBest_NaN)
qed

lemma reduce_skip_zero:
  assumes "zeroSum candidate" and "zeroOverlap (candidate d)"
  shows "reduceCandidates candidate (d # ds) s = reduceCandidates candidate ds s"
proof -
  from assms(2) obtain c where c: "candidate d = Inr (c, 0)"
    by (auto simp: zeroOverlap_def split: sum.splits)
  with assms(1) show ?thesis by (simp add: zeroOverlap_update)
qed

lemma reduce_filter:
  assumes "zeroSum candidate"
  shows "reduceCandidates candidate (filter (\<lambda>d. \<not> zeroOverlap (candidate d)) ds) s
       = reduceCandidates candidate ds s"
proof (induction ds arbitrary: s)
  case Nil
  show ?case by simp
next
  case (Cons d ds)
  show ?case
  proof (cases "zeroOverlap (candidate d)")
    case True
    then show ?thesis
      using Cons.IH reduce_skip_zero [OF assms True] by simp
  next
    case False
    then show ?thesis
      using Cons.IH by (simp split: sum.splits prod.splits)
  qed
qed

lemma reduce_all_zero:
  assumes "zeroSum candidate" and "\<forall>d\<in>set ds. zeroOverlap (candidate d)"
  shows "reduceCandidates candidate ds s = Inr s"
  using assms(2)
proof (induction ds)
  case Nil
  show ?case by simp
next
  case (Cons d ds)
  then show ?case
    using reduce_skip_zero [OF assms(1), of d ds s] by simp
qed

text \<open>
  C1.  On both CPU paths a candidate offset that matched no sample pair never replaces
  the running best.  Its guarded update leaves the wizard as it was; if it is the first
  candidate to take the lock, the run equals the run without it; and for every order of
  the candidates, a run equals the run over the candidates that did match some pair, so
  the outcome is never taken from a candidate without overlap.
\<close>

theorem zero_overlap_never_replaces_best:
  "(candidateUniform ppri psec d = Inr (c, 0) \<longrightarrow> updateBest (ddiv c 0) d s = s)
   \<and> (candidateSparse spri ssec d = Inr (c, 0) \<longrightarrow> updateBest (ddiv c 0) d s = s)
   \<and> (zeroOverlap (candidateUniform ppri psec d) \<longrightarrow>
        DoProcessWaveformUniformUnequalRate (d # ds) ppri psec s
          = DoProcessWaveformUniformUnequalRate ds ppri psec s)
   \<and> (zeroOverlap (candidateSparse spri ssec d) \<longrightarrow>
        DoProcessWaveformSparse (d # ds) spri ssec s
          = DoProcessWaveformSparse ds spri ssec s)
   \<and> DoProcessWaveformUniformUnequalRate
        (filter (\<lambda>d. \<not> zeroOverlap (candidateUniform ppri psec d)) ds) ppri psec s
        = DoProcessWaveformUniformUnequalRate ds ppri psec s
   \<and> DoProcessWaveformSparse
        (filter (\<lambda>d. \<not> zeroOverlap (candidateSparse spri ssec d)) ds) spri ssec s
        = DoProcessWaveformSparse ds spri ssec s"
proof (intro conjI impI)
  assume "candidateUniform ppri psec d = Inr (c, 0)"
  then show "updateBest (ddiv c 0) d s = s"
    by (rule zeroOverlap_update [OF zeroSum_uniform])
next
  assume "candidateSparse spri ssec d = Inr (c, 0)"
  then show "updateBest (ddiv c 0) d s = s"
    by (rule zeroOverlap_update [OF zeroSum_sparse])
next
  assume "zeroOverlap (candidateUniform ppri psec d)"
  then show "DoProcessWaveformUniformUnequalRate (d # ds) ppri psec s
      = DoProcessWaveformUniformUnequalRate ds ppri psec s"
    unfolding DoProcessWaveformUniformUnequalRate_def
    by (simp only: reduce_skip_zero [OF zeroSum_uniform])
next
  assume "zeroOverlap (candidateSparse spri ssec d)"
  then show "DoProcessWaveformSparse (d # ds) spri ssec s
      = DoProcessWaveformSparse ds spri ssec s"
    unfolding DoProcessWaveformSparse_def
    by (simp only: reduce_skip_zero [OF zeroSum_sparse])
next
  show "DoProcessWaveformUniformUnequalRate
      (filter (\<lambda>d. \<not> zeroOverlap (candidateUniform ppri psec d)) ds) ppri psec s
      = DoProcessWaveformUniformUnequalRate ds ppri psec s"
    unfolding DoProcessWaveformUniformUnequalRate_def
    by (simp only: reduce_filter [OF zeroSum_uniform])
next
  show "DoProcessWaveformSparse
      (filter (\<lambda>d. \<not> zeroOverlap (candidateSparse spri ssec d)) ds) spri ssec s
      = DoProcessWaveformSparse ds spri ssec s"
    unfolding DoProcessWaveformSparse_def
    by (simp only: reduce_filter [OF zeroSum_sparse])
qed

theorem zero_overlap_witness:
  "candidateUniform uPri uSec (- 2) = Inr (Fin 0, 0)
   \<and> candidateSparse sPri sSec (- 2) = Inr (Fin 0, 0)
   \<and> updateBest (ddiv (Fin 0) 0) (- 2) ScopeDeskewWizard_ctor = ScopeDeskewWizard_ctor
   \<and> DoProcessWaveformUniformUnequalRate (- 2 # [- 1, 0, 1]) uPri uSec ScopeDeskewWizard_ctor
       = DoProcessWaveformUniformUnequalRate [- 1, 0, 1] uPri uSec ScopeDeskewWizard_ctor
   \<and> DoProcessWaveformSparse (- 2 # [- 1, 0, 1]) sPri sSec ScopeDeskewWizard_ctor
       = DoProcessWaveformSparse [- 1, 0, 1] sPri sSec ScopeDeskewWizard_ctor
   \<and> m_bestCorrelationOffset
        (projr (DoProcessWaveformUniformUnequalRate (- 2 # [- 1, 0, 1]) uPri uSec
                  ScopeDeskewWizard_ctor)) = - 1"
proof -
  have u: "candidateUniform uPri uSec (- 2) = Inr (Fin 0, 0)" by code_simp
  have s: "candidateSparse sPri sSec (- 2) = Inr (Fin 0, 0)" by code_simp
  have zu: "zeroOverlap (candidateUniform uPri uSec (- 2))" by (simp add: u zeroOverlap_def)
  have zs: "zeroOverlap (candidateSparse sPri sSec (- 2))" by (simp add: s zeroOverlap_def)
  have r: "m_bestCorrelationOffset
        (projr (DoProcessWaveformUniformUnequalRate [- 1, 0, 1] uPri uSec
                  ScopeDeskewWizard_ctor)) = - 1" by code_simp
  note t = zero_overlap_never_replaces_best
         [of uPri uSec "- 2" "Fin 0" ScopeDeskewWizard_ctor sPri sSec "[- 1, 0, 1]"]
  from t u have a: "updateBest (ddiv (Fin 0) 0) (- 2) ScopeDeskewWizard_ctor = ScopeDeskewWizard_ctor"
    by blast
  from t zu have b: "DoProcessWaveformUniformUnequalRate (- 2 # [- 1, 0, 1]) uPri uSec ScopeDeskewWizard_ctor
       = DoProcessWaveformUniformUnequalRate [- 1, 0, 1] uPri uSec ScopeDeskewWizard_ctor"
    by blast
  from t zs have c: "DoProcessWaveformSparse (- 2 # [- 1, 0, 1]) sPri sSec ScopeDeskewWizard_ctor
       = DoProcessWaveformSparse [- 1, 0, 1] sPri sSec ScopeDeskewWizard_ctor"
    by blast
  from r b have r': "m_bestCorrelationOffset
        (projr (DoProcessWaveformUniformUnequalRate (- 2 # [- 1, 0, 1]) uPri uSec
                  ScopeDeskewWizard_ctor)) = - 1" by (simp only:)
  from u s a b c r' show ?thesis by blast
qed

section \<open>The cursor of the uniform path\<close>

lemma pred_div_not_dvd:
  fixes T S :: nat
  assumes "\<not> S dvd T"
  shows "(T - 1) div S = T div S"
proof (cases "S = 0")
  case True
  then show ?thesis by simp
next
  case False
  have m: "0 < T mod S"
    using assms by (simp add: dvd_eq_mod_eq_0)
  have eq: "S * (T div S) + T mod S = T" by simp
  have lt: "T mod S < S" using False by simp
  show ?thesis
  proof (rule div_nat_eqI)
    show "S * (T div S) \<le> T - 1" using m eq by linarith
    have "T < S * (T div S) + S" using eq lt by linarith
    then show "T - 1 < S * Suc (T div S)" by simp
  qed
qed

lemma pred_div_dvd:
  fixes T S :: nat
  assumes "S dvd T" and "0 < T"
  shows "(T - 1) div S + 1 = T div S"
proof -
  from assms obtain q where q: "T = S * q" by (auto simp: dvd_def)
  with assms(2) have S: "0 < S" and q0: "0 < q" by auto
  have "(T - 1) div S = q - 1"
  proof (rule div_nat_eqI)
    have "S * (q - 1) = S * q - S" by (simp add: diff_mult_distrib2)
    then show "S * (q - 1) \<le> T - 1" using q S by simp
    show "T - 1 < S * Suc (q - 1)" using q q0 S by simp
  qed
  moreover have "T div S = q" using q S by simp
  ultimately show ?thesis using q0 by simp
qed

lemma directIndex_unat: "directIndex utarget ts = unat utarget div unat ts"
  by (simp add: directIndex_def unat_div)

lemma unat_of_nat_mult_small:
  assumes "n * unat (ts :: 64 word) < 2 ^ 64"
  shows "unat (of_nat n * ts) = n * unat ts"
proof (cases "unat ts = 0")
  case True
  then have "ts = 0" by (simp add: unat_eq_0)
  then show ?thesis by simp
next
  case False
  then have "n \<le> n * unat ts" by simp
  with assms have n: "n < 2 ^ 64" by linarith
  have "unat (of_nat n :: 64 word) = n"
    using n by (simp add: unat_of_nat)
  then show ?thesis
    using assms by (simp add: unat_word_ariths)
qed

lemma skipUniform_stops:
  assumes "(k + 1) * unat ts < 2 ^ 64"
    and "unat utarget \<le> (k + 1) * unat ts"
    and "\<forall>j. isecondary \<le> j \<and> j < k \<longrightarrow> (j + 1) * unat ts < unat utarget"
    and "isecondary \<le> k" and "k < slen"
  shows "skipUniform ts slen utarget isecondary = (k, False)"
  using assms
proof (induction "k - isecondary" arbitrary: isecondary)
  case 0
  then have eq: "isecondary = k" by simp
  have "unat (of_nat (k + 1) * ts) = (k + 1) * unat ts"
    using "0.prems"(1) by (rule unat_of_nat_mult_small)
  then have "\<not> of_nat (k + 1) * ts < utarget"
    using "0.prems"(2) by (simp add: word_less_nat_alt)
  then show ?case
    by (subst skipUniform.simps) (simp add: eq)
next
  case (Suc n)
  then have lt: "isecondary < k" by simp
  have "(isecondary + 1) * unat ts \<le> (k + 1) * unat ts"
    using lt by (simp add: mult_le_mono1)
  then have small: "(isecondary + 1) * unat ts < 2 ^ 64"
    using Suc.prems(1) by linarith
  have "unat (of_nat (isecondary + 1) * ts) = (isecondary + 1) * unat ts"
    using small by (rule unat_of_nat_mult_small)
  moreover have "(isecondary + 1) * unat ts < unat utarget"
    using Suc.prems(3) lt by simp
  ultimately have c: "of_nat (isecondary + 1) * ts < utarget"
    by (simp add: word_less_nat_alt)
  have ih: "skipUniform ts slen utarget (isecondary + 1) = (k, False)"
  proof (rule Suc.hyps(1))
    show "n = k - (isecondary + 1)" using Suc.hyps(2) by simp
    show "\<forall>j. isecondary + 1 \<le> j \<and> j < k \<longrightarrow> (j + 1) * unat ts < unat utarget"
      using Suc.prems(3) by simp
  qed (use Suc.prems lt in simp_all)
  have "\<not> slen \<le> isecondary + 1" using lt Suc.prems(5) by simp
  then show ?case
    using c ih by (subst skipUniform.simps) simp
qed

lemma skipUniform_index:
  assumes ts: "0 < unat ts"
    and nowrap: "((unat utarget - 1) div unat ts + 1) * unat ts < 2 ^ 64"
    and cur: "isecondary \<le> (unat utarget - 1) div unat ts"
    and inr: "(unat utarget - 1) div unat ts < slen"
  shows "skipUniform ts slen utarget isecondary = ((unat utarget - 1) div unat ts, False)"
proof (rule skipUniform_stops[OF nowrap _ _ cur inr])
  let ?T = "unat utarget" and ?S = "unat ts"
  have "?T - 1 < ((?T - 1) div ?S + 1) * ?S"
    using ts by (metis Suc_eq_plus1 dividend_less_div_times mult.commute mult_Suc_right)
  then show "?T \<le> ((?T - 1) div ?S + 1) * ?S" by linarith
  show "\<forall>j. isecondary \<le> j \<and> j < (?T - 1) div ?S \<longrightarrow> (j + 1) * ?S < ?T"
  proof (intro allI impI)
    fix j assume "isecondary \<le> j \<and> j < (?T - 1) div ?S"
    then have "j + 1 \<le> (?T - 1) div ?S" by simp
    then have "(j + 1) * ?S \<le> ((?T - 1) div ?S) * ?S" by (rule mult_le_mono1)
    also have "\<dots> \<le> ?T - 1" by simp
    finally have le: "(j + 1) * ?S \<le> ?T - 1" .
    have "0 < (j + 1) * ?S" using ts by simp
    with le show "(j + 1) * ?S < ?T" by linarith
  qed
qed

text \<open>
  C4, as amended.  For a primary sample \<open>i\<close> with non-negative target \<open>T\<close>, a secondary
  timescale \<open>S > 0\<close>, no wrap-around in \<open>(k + 1) * S\<close>, and the cursor at or below
  \<open>k = (T - 1) div S\<close>, which lies inside the secondary waveform, the cursor-advance loop
  stops at \<open>k\<close> and the sample \<open>i\<close> is multiplied with the secondary sample \<open>k\<close>: the
  first one whose end \<open>(k + 1) * S\<close> is not before the target.  This is the direct index
  \<open>T div S\<close> when \<open>S\<close> does not divide \<open>T\<close> and when \<open>T = 0\<close>; when \<open>T\<close> is a positive
  multiple of \<open>S\<close> it is one less than the direct index.
\<close>

theorem uniform_match_index:
  assumes T: "T = unat (targetUniform ppri deltaFs i)"
    and S: "S = unat (m_timescale psec)"
    and k: "k = (T - 1) div S"
    and i: "i < size_w ppri"
    and nonneg: "0 \<le> sint (targetUniform ppri deltaFs i)"
    and pos: "0 < S"
    and nowrap: "(k + 1) * S < 2 ^ 64"
    and cur: "isecondary \<le> k"
    and inrange: "k < size_w psec"
  shows "skipUniform (m_timescale psec) (size_w psec) (targetUniform ppri deltaFs i) isecondary
           = (k, False)
    \<and> loopUniform ppri psec deltaFs i isecondary correlation samplesProcessed
         = loopUniform ppri psec deltaFs (i + 1) k
             (dadd correlation (dmul (m_samples ppri ! i) (m_samples psec ! k)))
             (samplesProcessed + 1)
    \<and> (\<not> S dvd T \<longrightarrow> k = directIndex (targetUniform ppri deltaFs i) (m_timescale psec))
    \<and> (T = 0 \<longrightarrow> k = directIndex (targetUniform ppri deltaFs i) (m_timescale psec))
    \<and> (S dvd T \<and> 0 < T \<longrightarrow>
          k + 1 = directIndex (targetUniform ppri deltaFs i) (m_timescale psec))"
proof -
  have skip: "skipUniform (m_timescale psec) (size_w psec) (targetUniform ppri deltaFs i)
      isecondary = (k, False)"
    using skipUniform_index [of "m_timescale psec" "targetUniform ppri deltaFs i" isecondary
        "size_w psec"] pos nowrap cur inrange
    by (simp add: T S k)
  have pri: "readAt (m_samples ppri) i = Some (m_samples ppri ! i)"
    using i by (simp add: readAt_def size_w_def)
  have sec: "readAt (m_samples psec) k = Some (m_samples psec ! k)"
    using inrange by (simp add: readAt_def size_w_def)
  have step: "loopUniform ppri psec deltaFs i isecondary correlation samplesProcessed
      = loopUniform ppri psec deltaFs (i + 1) k
          (dadd correlation (dmul (m_samples ppri ! i) (m_samples psec ! k)))
          (samplesProcessed + 1)"
    using i nonneg by (subst loopUniform.simps) (simp add: skip pri sec)
  have d: "directIndex (targetUniform ppri deltaFs i) (m_timescale psec) = T div S"
    by (simp add: directIndex_unat T S)
  have a: "\<not> S dvd T \<longrightarrow> k = T div S"
    using pred_div_not_dvd [of S T] by (simp add: k)
  have b: "T = 0 \<longrightarrow> k = T div S"
    by (simp add: k)
  have c: "S dvd T \<and> 0 < T \<longrightarrow> k + 1 = T div S"
    using pred_div_dvd [of S T] by (simp add: k)
  show ?thesis
    using skip step a b c by (simp only: d)
qed

theorem uniform_match_index_witness:
  "skipUniform (m_timescale uSecSlow) (size_w uSecSlow) (targetUniform uPri 2 1) 0 = (1, False)
   \<and> loopUniform uPri uSecSlow 2 1 0 (Fin 0) 1
       = loopUniform uPri uSecSlow 2 (1 + 1) 1
           (dadd (Fin 0) (dmul (m_samples uPri ! 1) (m_samples uSecSlow ! 1))) (1 + 1)
   \<and> 1 = directIndex (targetUniform uPri 2 1) (m_timescale uSecSlow)"
proof -
  have T: "(3::nat) = unat (targetUniform uPri 2 1)" by code_simp
  have S: "(2::nat) = unat (m_timescale uSecSlow)" by code_simp
  have k: "(1::nat) = (3 - 1) div 2" by simp
  have i: "1 < size_w uPri" by code_simp
  have nonneg: "0 \<le> sint (targetUniform uPri 2 1)" by code_simp
  have inrange: "1 < size_w uSecSlow" by code_simp
  have ndvd: "\<not> (2::nat) dvd 3" by simp
  from uniform_match_index [OF T S k i nonneg _ _ _ inrange, of 0 "Fin 0" 1] ndvd
  show ?thesis by simp
qed

text \<open>
  The claim as stated fails where the target is a positive multiple of the secondary
  timescale: with both timescales 1 and no shift, the target of primary sample 1 is 1,
  the direct index is 1 and lies inside the secondary, but the loop leaves the cursor at
  0, so the candidate sums \<open>0 * 5 + 1 * 5\<close>, not \<open>0 * 5 + 1 * 7\<close>.
\<close>

theorem direct_index_counterexample:
  "0 \<le> sint (targetUniform uPri (deltaFsUniform uPri uSec 0) 1)
   \<and> directIndex (targetUniform uPri (deltaFsUniform uPri uSec 0) 1) (m_timescale uSec)
       < size_w uSec
   \<and> fst (skipUniform (m_timescale uSec) (size_w uSec)
            (targetUniform uPri (deltaFsUniform uPri uSec 0) 1) 0)
       \<noteq> directIndex (targetUniform uPri (deltaFsUniform uPri uSec 0) 1) (m_timescale uSec)
   \<and> skipUniform (m_timescale uSec) (size_w uSec)
            (targetUniform uPri (deltaFsUniform uPri uSec 0) 1) 0 = (0, False)
   \<and> directIndex (targetUniform uPri (deltaFsUniform uPri uSec 0) 1) (m_timescale uSec) = 1
   \<and> candidateUniform uPri uSec 0 = Inr (Fin 5, 2)"
  by code_simp

section \<open>The time shift of a candidate\<close>

text \<open>
  C2, as amended.  On the uniform path the time shift of candidate \<open>d\<close> is
  \<open>d * primary.timescale + (primary.triggerPhase - secondary.triggerPhase)\<close>: the loop
  from primary sample \<open>i\<close> on takes \<open>i * primary.timescale\<close> plus this shift as the target
  of the sample, skips the sample if the target is negative, and otherwise advances the
  cursor while \<open>(isecondary + 1) * secondary.timescale\<close> is below the target.  On the
  sparse path the time shift is \<open>d * primary.timescale\<close> alone: the target of primary
  sample \<open>i\<close> is \<open>offset i * primary.timescale + primary.triggerPhase\<close> plus this shift,
  and the cursor advances while the end time
  \<open>(offset k + duration k) * secondary.timescale + secondary.triggerPhase\<close> of the
  secondary sample at the cursor is below the target.  So on the sparse path the two
  trigger phases enter through the two sides of this comparison: the target is the
  primary's offset time plus the shift of the uniform path plus the secondary's trigger
  phase.
\<close>

theorem time_shift_in_each_loop:
  "candidateUniform ppri psec d
     = loopUniform ppri psec
         (specDeltaFs (m_timescale ppri) (m_triggerPhase ppri) (m_triggerPhase psec) d)
         0 0 (Fin 0) 0
   \<and> (i < size_w ppri \<longrightarrow>
        loopUniform ppri psec
          (specDeltaFs (m_timescale ppri) (m_triggerPhase ppri) (m_triggerPhase psec) d)
          i isecondary correlation samplesProcessed
        = (if sint (of_nat i * m_timescale ppri
                     + (d * m_timescale ppri + (m_triggerPhase ppri - m_triggerPhase psec))) < 0
           then loopUniform ppri psec
                  (specDeltaFs (m_timescale ppri) (m_triggerPhase ppri) (m_triggerPhase psec) d)
                  (i + 1) isecondary correlation samplesProcessed
           else if snd (skipUniform (m_timescale psec) (size_w psec)
                          (of_nat i * m_timescale ppri
                             + (d * m_timescale ppri
                                + (m_triggerPhase ppri - m_triggerPhase psec)))
                          isecondary)
           then Inr (correlation, samplesProcessed)
           else (case readAt (m_samples ppri) i of
                   None \<Rightarrow> Inl OutOfBounds
                 | Some a \<Rightarrow>
                     (case readAt (m_samples psec)
                             (fst (skipUniform (m_timescale psec) (size_w psec)
                                    (of_nat i * m_timescale ppri
                                       + (d * m_timescale ppri
                                          + (m_triggerPhase ppri - m_triggerPhase psec)))
                                    isecondary)) of
                        None \<Rightarrow> Inl OutOfBounds
                      | Some b \<Rightarrow>
                          loopUniform ppri psec
                            (specDeltaFs (m_timescale ppri) (m_triggerPhase ppri)
                               (m_triggerPhase psec) d)
                            (i + 1)
                            (fst (skipUniform (m_timescale psec) (size_w psec)
                                   (of_nat i * m_timescale ppri
                                      + (d * m_timescale ppri
                                         + (m_triggerPhase ppri - m_triggerPhase psec)))
                                   isecondary))
                            (dadd correlation (dmul a b)) (samplesProcessed + 1)))))
   \<and> skipUniform tsSec slen utarget isecondary
       = (if of_nat (isecondary + 1) * tsSec < utarget
          then (if slen \<le> isecondary + 1 then (isecondary + 1, True)
                else skipUniform tsSec slen utarget (isecondary + 1))
          else (isecondary, False))
   \<and> candidateSparse spri ssec d = loopSparse spri ssec (d * m_timescale spri) 0 0 (Fin 0) 0
   \<and> (i < size_w spri \<and> readAt (m_offsets spri) i = Some off \<longrightarrow>
        loopSparse spri ssec (d * m_timescale spri) i isecondary correlation samplesProcessed
        = (if sint (off * m_timescale spri + m_triggerPhase spri + d * m_timescale spri) < 0
           then loopSparse spri ssec (d * m_timescale spri) (i + 1) isecondary correlation
                  samplesProcessed
           else (case skipSparse ssec (size_w ssec)
                        (off * m_timescale spri + m_triggerPhase spri + d * m_timescale spri)
                        isecondary of
                   Inl err \<Rightarrow> Inl err
                 | Inr (isecondary', done) \<Rightarrow>
                     (if done then Inr (correlation, samplesProcessed)
                      else (case readAt (m_samples spri) i of
                              None \<Rightarrow> Inl OutOfBounds
                            | Some a \<Rightarrow>
                                (case readAt (m_samples ssec) isecondary' of
                                   None \<Rightarrow> Inl OutOfBounds
                                 | Some b \<Rightarrow>
                                     loopSparse spri ssec (d * m_timescale spri) (i + 1)
                                       isecondary' (dadd correlation (dmul a b))
                                       (samplesProcessed + 1)))))))
   \<and> (readAt (m_offsets ssec) k = Some soff \<and> readAt (m_durations ssec) k = Some dur \<longrightarrow>
        skipSparse ssec slen target k
        = (if sint ((soff + dur) * m_timescale ssec + m_triggerPhase ssec) < sint target
           then (if slen \<le> k + 1 then Inr (k + 1, True)
                 else skipSparse ssec slen target (k + 1))
           else Inr (k, False)))
   \<and> off * m_timescale spri + m_triggerPhase spri + d * m_timescale spri
       = off * m_timescale spri
         + specDeltaFs (m_timescale spri) (m_triggerPhase spri) (m_triggerPhase ssec) d
         + m_triggerPhase ssec"
proof -
  have u: "deltaFsUniform ppri psec d
      = specDeltaFs (m_timescale ppri) (m_triggerPhase ppri) (m_triggerPhase psec) d"
    by (simp add: deltaFsUniform_def specDeltaFs_def mult.commute)
  have s: "deltaFsSparse spri d = d * m_timescale spri"
    by (simp add: deltaFsSparse_def mult.commute)
  have 1: "candidateUniform ppri psec d
     = loopUniform ppri psec
         (specDeltaFs (m_timescale ppri) (m_triggerPhase ppri) (m_triggerPhase psec) d)
         0 0 (Fin 0) 0"
    by (simp add: candidateUniform_def u)
  have t: "of_nat i * m_timescale ppri
        + (d * m_timescale ppri + (m_triggerPhase ppri - m_triggerPhase psec))
      = targetUniform ppri
          (specDeltaFs (m_timescale ppri) (m_triggerPhase ppri) (m_triggerPhase psec) d) i"
    by (simp add: targetUniform_def specDeltaFs_def)
  have 2: "i < size_w ppri \<longrightarrow>
        loopUniform ppri psec
          (specDeltaFs (m_timescale ppri) (m_triggerPhase ppri) (m_triggerPhase psec) d)
          i isecondary correlation samplesProcessed
        = (if sint (of_nat i * m_timescale ppri
                     + (d * m_timescale ppri + (m_triggerPhase ppri - m_triggerPhase psec))) < 0
           then loopUniform ppri psec
                  (specDeltaFs (m_timescale ppri) (m_triggerPhase ppri) (m_triggerPhase psec) d)
                  (i + 1) isecondary correlation samplesProcessed
           else if snd (skipUniform (m_timescale psec) (size_w psec)
                          (of_nat i * m_timescale ppri
                             + (d * m_timescale ppri
                                + (m_triggerPhase ppri - m_triggerPhase psec)))
                          isecondary)
           then Inr (correlation, samplesProcessed)
           else (case readAt (m_samples ppri) i of
                   None \<Rightarrow> Inl OutOfBounds
                 | Some a \<Rightarrow>
                     (case readAt (m_samples psec)
                             (fst (skipUniform (m_timescale psec) (size_w psec)
                                    (of_nat i * m_timescale ppri
                                       + (d * m_timescale ppri
                                          + (m_triggerPhase ppri - m_triggerPhase psec)))
                                    isecondary)) of
                        None \<Rightarrow> Inl OutOfBounds
                      | Some b \<Rightarrow>
                          loopUniform ppri psec
                            (specDeltaFs (m_timescale ppri) (m_triggerPhase ppri)
                               (m_triggerPhase psec) d)
                            (i + 1)
                            (fst (skipUniform (m_timescale psec) (size_w psec)
                                   (of_nat i * m_timescale ppri
                                      + (d * m_timescale ppri
                                         + (m_triggerPhase ppri - m_triggerPhase psec)))
                                   isecondary))
                            (dadd correlation (dmul a b)) (samplesProcessed + 1))))"
  proof
    assume "i < size_w ppri"
    then show "loopUniform ppri psec
          (specDeltaFs (m_timescale ppri) (m_triggerPhase ppri) (m_triggerPhase psec) d)
          i isecondary correlation samplesProcessed
        = (if sint (of_nat i * m_timescale ppri
                     + (d * m_timescale ppri + (m_triggerPhase ppri - m_triggerPhase psec))) < 0
           then loopUniform ppri psec
                  (specDeltaFs (m_timescale ppri) (m_triggerPhase ppri) (m_triggerPhase psec) d)
                  (i + 1) isecondary correlation samplesProcessed
           else if snd (skipUniform (m_timescale psec) (size_w psec)
                          (of_nat i * m_timescale ppri
                             + (d * m_timescale ppri
                                + (m_triggerPhase ppri - m_triggerPhase psec)))
                          isecondary)
           then Inr (correlation, samplesProcessed)
           else (case readAt (m_samples ppri) i of
                   None \<Rightarrow> Inl OutOfBounds
                 | Some a \<Rightarrow>
                     (case readAt (m_samples psec)
                             (fst (skipUniform (m_timescale psec) (size_w psec)
                                    (of_nat i * m_timescale ppri
                                       + (d * m_timescale ppri
                                          + (m_triggerPhase ppri - m_triggerPhase psec)))
                                    isecondary)) of
                        None \<Rightarrow> Inl OutOfBounds
                      | Some b \<Rightarrow>
                          loopUniform ppri psec
                            (specDeltaFs (m_timescale ppri) (m_triggerPhase ppri)
                               (m_triggerPhase psec) d)
                            (i + 1)
                            (fst (skipUniform (m_timescale psec) (size_w psec)
                                   (of_nat i * m_timescale ppri
                                      + (d * m_timescale ppri
                                         + (m_triggerPhase ppri - m_triggerPhase psec)))
                                   isecondary))
                            (dadd correlation (dmul a b)) (samplesProcessed + 1))))"
      unfolding t by (subst loopUniform.simps) simp
  qed
  have 3: "skipUniform tsSec slen utarget isecondary
       = (if of_nat (isecondary + 1) * tsSec < utarget
          then (if slen \<le> isecondary + 1 then (isecondary + 1, True)
                else skipUniform tsSec slen utarget (isecondary + 1))
          else (isecondary, False))"
    by (rule skipUniform.simps)
  have 4: "candidateSparse spri ssec d
      = loopSparse spri ssec (d * m_timescale spri) 0 0 (Fin 0) 0"
    by (simp add: candidateSparse_def s)
  have 5: "i < size_w spri \<and> readAt (m_offsets spri) i = Some off \<longrightarrow>
        loopSparse spri ssec (d * m_timescale spri) i isecondary correlation samplesProcessed
        = (if sint (off * m_timescale spri + m_triggerPhase spri + d * m_timescale spri) < 0
           then loopSparse spri ssec (d * m_timescale spri) (i + 1) isecondary correlation
                  samplesProcessed
           else (case skipSparse ssec (size_w ssec)
                        (off * m_timescale spri + m_triggerPhase spri + d * m_timescale spri)
                        isecondary of
                   Inl err \<Rightarrow> Inl err
                 | Inr (isecondary', done) \<Rightarrow>
                     (if done then Inr (correlation, samplesProcessed)
                      else (case readAt (m_samples spri) i of
                              None \<Rightarrow> Inl OutOfBounds
                            | Some a \<Rightarrow>
                                (case readAt (m_samples ssec) isecondary' of
                                   None \<Rightarrow> Inl OutOfBounds
                                 | Some b \<Rightarrow>
                                     loopSparse spri ssec (d * m_timescale spri) (i + 1)
                                       isecondary' (dadd correlation (dmul a b))
                                       (samplesProcessed + 1))))))"
  proof
    assume "i < size_w spri \<and> readAt (m_offsets spri) i = Some off"
    then show "loopSparse spri ssec (d * m_timescale spri) i isecondary correlation
          samplesProcessed
        = (if sint (off * m_timescale spri + m_triggerPhase spri + d * m_timescale spri) < 0
           then loopSparse spri ssec (d * m_timescale spri) (i + 1) isecondary correlation
                  samplesProcessed
           else (case skipSparse ssec (size_w ssec)
                        (off * m_timescale spri + m_triggerPhase spri + d * m_timescale spri)
                        isecondary of
                   Inl err \<Rightarrow> Inl err
                 | Inr (isecondary', done) \<Rightarrow>
                     (if done then Inr (correlation, samplesProcessed)
                      else (case readAt (m_samples spri) i of
                              None \<Rightarrow> Inl OutOfBounds
                            | Some a \<Rightarrow>
                                (case readAt (m_samples ssec) isecondary' of
                                   None \<Rightarrow> Inl OutOfBounds
                                 | Some b \<Rightarrow>
                                     loopSparse spri ssec (d * m_timescale spri) (i + 1)
                                       isecondary' (dadd correlation (dmul a b))
                                       (samplesProcessed + 1))))))"
      by (subst loopSparse.simps) (simp add: startSparse_def)
  qed
  have 6: "readAt (m_offsets ssec) k = Some soff \<and> readAt (m_durations ssec) k = Some dur \<longrightarrow>
        skipSparse ssec slen target k
        = (if sint ((soff + dur) * m_timescale ssec + m_triggerPhase ssec) < sint target
           then (if slen \<le> k + 1 then Inr (k + 1, True)
                 else skipSparse ssec slen target (k + 1))
           else Inr (k, False))"
    by (subst skipSparse.simps) (simp add: endSparse_def)
  have 7: "off * m_timescale spri + m_triggerPhase spri + d * m_timescale spri
       = off * m_timescale spri
         + specDeltaFs (m_timescale spri) (m_triggerPhase spri) (m_triggerPhase ssec) d
         + m_triggerPhase ssec"
    by (simp add: specDeltaFs_def)
  from 1 2 3 4 5 6 7 show ?thesis by (intro conjI)
qed

theorem time_shift_witness:
  "candidateUniform uPriPhase uSecPhase 0 = Inr (Fin 3, 2)
   \<and> candidateUniform (uPriPhase\<lparr> m_triggerPhase := 0 \<rparr>) uSecPhase 0 = Inr (Fin 2, 2)
   \<and> 1 < size_w uPriPhase
   \<and> specDeltaFs (m_timescale uPriPhase) (m_triggerPhase uPriPhase) (m_triggerPhase uSecPhase) 0
       = 5
   \<and> size_w uSecPhase = 3 \<and> size_w sSecPhase = 3
   \<and> skipUniform (m_timescale uSecPhase) 3 6 0 = (1, False)
   \<and> loopUniform uPriPhase uSecPhase
        (specDeltaFs (m_timescale uPriPhase) (m_triggerPhase uPriPhase)
           (m_triggerPhase uSecPhase) 0)
        1 0 (Fin 1) 1
       = loopUniform uPriPhase uSecPhase
           (specDeltaFs (m_timescale uPriPhase) (m_triggerPhase uPriPhase)
              (m_triggerPhase uSecPhase) 0)
           2 1 (Fin 3) 2
   \<and> candidateSparse sPriPhase sSecPhase 0 = Inr (Fin 3, 2)
   \<and> 1 < size_w sPriPhase \<and> readAt (m_offsets sPriPhase) 1 = Some 1
   \<and> readAt (m_offsets sSecPhase) 0 = Some 0 \<and> readAt (m_durations sSecPhase) 0 = Some 5
   \<and> skipSparse sSecPhase 3 6 0 = Inr (1, False)
   \<and> loopSparse sPriPhase sSecPhase (0 * m_timescale sPriPhase) 1 0 (Fin 1) 1
       = loopSparse sPriPhase sSecPhase (0 * m_timescale sPriPhase) 2 1 (Fin 3) 2"
proof -
  note t = time_shift_in_each_loop [where ppri = uPriPhase and psec = uSecPhase and d = 0
      and i = 1 and isecondary = 0 and correlation = "Fin 1" and samplesProcessed = 1
      and tsSec = "m_timescale uSecPhase" and slen = 3 and utarget = 6
      and spri = sPriPhase and ssec = sSecPhase and off = 1 and k = 0 and soff = 0
      and dur = 5 and target = 6]
  have h: "1 < size_w uPriPhase \<and> 1 < size_w sPriPhase
      \<and> size_w uSecPhase = 3 \<and> size_w sSecPhase = 3
      \<and> readAt (m_offsets sPriPhase) 1 = Some 1
      \<and> readAt (m_offsets sSecPhase) 0 = Some 0 \<and> readAt (m_durations sSecPhase) 0 = Some 5"
    by code_simp
  have d: "specDeltaFs (m_timescale uPriPhase) (m_triggerPhase uPriPhase)
      (m_triggerPhase uSecPhase) 0 = 5"
    by code_simp
  have v0: "loopUniform uPriPhase uSecPhase
      (specDeltaFs (m_timescale uPriPhase) (m_triggerPhase uPriPhase)
         (m_triggerPhase uSecPhase) 0) 0 0 (Fin 0) 0 = Inr (Fin 3, 2)"
    by code_simp
  have v1: "candidateUniform (uPriPhase\<lparr> m_triggerPhase := 0 \<rparr>) uSecPhase 0 = Inr (Fin 2, 2)"
    by code_simp
  have v2: "loopSparse sPriPhase sSecPhase (0 * m_timescale sPriPhase) 0 0 (Fin 0) 0
      = Inr (Fin 3, 2)"
    by code_simp
  from t have 1: "candidateUniform uPriPhase uSecPhase 0 = Inr (Fin 3, 2)"
    unfolding v0 by blast
  from t have 2: "candidateSparse sPriPhase sSecPhase 0 = Inr (Fin 3, 2)"
    unfolding v2 by blast
  from t h have 3: "skipSparse sSecPhase 3 6 0
      = (if sint ((0 + 5) * m_timescale sSecPhase + m_triggerPhase sSecPhase) < sint (6 :: 64 word)
         then (if (3 :: nat) \<le> 0 + 1 then Inr (0 + 1, True)
               else skipSparse sSecPhase 3 6 (0 + 1))
         else Inr (0, False))"
    by blast
  have 4: "(if sint ((0 + 5) * m_timescale sSecPhase + m_triggerPhase sSecPhase)
              < sint (6 :: 64 word)
         then (if (3 :: nat) \<le> 0 + 1 then Inr (0 + 1, True)
               else skipSparse sSecPhase 3 6 (0 + 1))
         else Inr (0, False)) = Inr (1, False)"
    by code_simp
  from t have 5: "skipUniform (m_timescale uSecPhase) 3 6 0
       = (if of_nat (0 + 1) * m_timescale uSecPhase < 6
          then (if (3 :: nat) \<le> 0 + 1 then (0 + 1, True)
                else skipUniform (m_timescale uSecPhase) 3 6 (0 + 1))
          else (0, False))"
    by blast
  have 6: "(if of_nat (0 + 1) * m_timescale uSecPhase < 6
          then (if (3 :: nat) \<le> 0 + 1 then (0 + 1, True)
                else skipUniform (m_timescale uSecPhase) 3 6 (0 + 1))
          else (0, False)) = (1, False)"
    by code_simp
  note stepUniform = t [THEN conjunct2, THEN conjunct1, rule_format]
  note stepSparse =
    t [THEN conjunct2, THEN conjunct2, THEN conjunct2, THEN conjunct2, THEN conjunct1,
       rule_format]
  from h have hu: "1 < size_w uPriPhase"
    and hs: "1 < size_w sPriPhase \<and> readAt (m_offsets sPriPhase) 1 = Some 1"
    by blast+
  have 7: "loopUniform uPriPhase uSecPhase
        (specDeltaFs (m_timescale uPriPhase) (m_triggerPhase uPriPhase)
           (m_triggerPhase uSecPhase) 0)
        1 0 (Fin 1) 1
       = loopUniform uPriPhase uSecPhase
           (specDeltaFs (m_timescale uPriPhase) (m_triggerPhase uPriPhase)
              (m_triggerPhase uSecPhase) 0)
           2 1 (Fin 3) 2"
    by (subst stepUniform [OF hu]) code_simp
  have 8: "loopSparse sPriPhase sSecPhase (0 * m_timescale sPriPhase) 1 0 (Fin 1) 1
       = loopSparse sPriPhase sSecPhase (0 * m_timescale sPriPhase) 2 1 (Fin 3) 2"
    by (subst stepSparse [OF hs]) code_simp
  from 1 2 v1 h d 3 4 5 6 7 8 show ?thesis by simp
qed

text \<open>
  With trigger phases 5 and 0 the sparse path's shift for \<open>d = 0\<close> is 0, not 5, and the
  candidate's sum differs from the one the shift of the claim would give.
\<close>

theorem sparse_deltaFs_counterexample:
  "deltaFsSparse sPriPhase 0
     \<noteq> specDeltaFs (m_timescale sPriPhase) (m_triggerPhase sPriPhase)
          (m_triggerPhase sSecPhase) 0
   \<and> candidateSparse sPriPhase sSecPhase 0 = Inr (Fin 3, 2)
   \<and> loopSparse sPriPhase sSecPhase
        (specDeltaFs (m_timescale sPriPhase) (m_triggerPhase sPriPhase)
           (m_triggerPhase sSecPhase) 0) 0 0 (Fin 0) 0 = Inr (Fin 6, 2)"
  by code_simp

section \<open>Array reads stay inside a non-empty secondary waveform\<close>

lemma skipUniform_bound:
  "isecondary < slen \<Longrightarrow>
     snd (skipUniform ts slen utarget isecondary)
     \<or> fst (skipUniform ts slen utarget isecondary) < slen"
proof (induction ts slen utarget isecondary rule: skipUniform.induct)
  case (1 ts slen utarget isecondary)
  show ?case
    using "1.prems" "1.IH" by (subst (1 2) skipUniform.simps) auto
qed

lemma loopUniform_in_bounds:
  "isecondary < size_w psec \<Longrightarrow>
     loopUniform ppri psec deltaFs i isecondary correlation samplesProcessed \<noteq> Inl err"
proof (induction ppri psec deltaFs i isecondary correlation samplesProcessed
    rule: loopUniform.induct)
  case (1 ppri psec deltaFs i isecondary correlation samplesProcessed)
  let ?r = "skipUniform (m_timescale psec) (size_w psec) (targetUniform ppri deltaFs i)
      isecondary"
  show ?case
  proof (cases "i < size_w ppri")
    case False
    then show ?thesis by (subst loopUniform.simps) simp
  next
    case i: True
    show ?thesis
    proof (cases "sint (targetUniform ppri deltaFs i) < 0")
      case True
      then show ?thesis
        using i "1.IH"(1) "1.prems" by (subst loopUniform.simps) simp
    next
      case neg: False
      show ?thesis
      proof (cases "snd ?r")
        case True
        then show ?thesis using i neg by (subst loopUniform.simps) simp
      next
        case nd: False
        with skipUniform_bound [OF "1.prems", of "m_timescale psec" "targetUniform ppri deltaFs i"]
        have k: "fst ?r < size_w psec" by simp
        have a: "readAt (m_samples ppri) i = Some (m_samples ppri ! i)"
          using i by (simp add: readAt_def size_w_def)
        have b: "readAt (m_samples psec) (fst ?r) = Some (m_samples psec ! fst ?r)"
          using k by (simp add: readAt_def size_w_def)
        show ?thesis
          using i neg nd a b "1.IH"(2) [OF i neg nd a b k]
          by (subst loopUniform.simps) simp
      qed
    qed
  qed
qed

lemma skipSparse_bound:
  "wellFormedSparse psec \<Longrightarrow> slen = size_w psec \<Longrightarrow> isecondary < slen \<Longrightarrow>
     \<exists>k done. skipSparse psec slen target isecondary = Inr (k, done) \<and> (done \<or> k < slen)"
proof (induction psec slen target isecondary rule: skipSparse.induct)
  case (1 psec slen target isecondary)
  have "isecondary < length (m_offsets psec)" "isecondary < length (m_durations psec)"
    using "1.prems" by (simp_all add: wellFormedSparse_def size_w_def)
  then obtain e where e: "endSparse psec isecondary = Some e"
    by (simp add: endSparse_def readAt_def)
  show ?case
    using "1.prems" "1.IH" [OF e] by (subst skipSparse.simps) (auto simp: e)
qed

lemma loopSparse_in_bounds:
  "wellFormedSparse ppri \<Longrightarrow> wellFormedSparse psec \<Longrightarrow> isecondary < size_w psec \<Longrightarrow>
     loopSparse ppri psec deltaFs i isecondary correlation samplesProcessed \<noteq> Inl err"
proof (induction ppri psec deltaFs i isecondary correlation samplesProcessed
    rule: loopSparse.induct)
  case (1 ppri psec deltaFs i isecondary correlation samplesProcessed)
  show ?case
  proof (cases "i < size_w ppri")
    case False
    then show ?thesis by (subst loopSparse.simps) simp
  next
    case i: True
    then have "i < length (m_offsets ppri)"
      using "1.prems"(1) by (simp add: wellFormedSparse_def size_w_def)
    then obtain start where st: "startSparse ppri i = Some start"
      by (simp add: startSparse_def readAt_def)
    show ?thesis
    proof (cases "sint (start + deltaFs) < 0")
      case True
      then show ?thesis
        using i st "1.IH"(1) [OF i st True] "1.prems" by (subst loopSparse.simps) simp
    next
      case neg: False
      from skipSparse_bound [OF "1.prems"(2) refl "1.prems"(3), of "start + deltaFs"]
      obtain k dn where sk: "skipSparse psec (size_w psec) (start + deltaFs) isecondary
          = Inr (k, dn)" and k: "dn \<or> k < size_w psec"
        by blast
      show ?thesis
      proof (cases dn)
        case True
        then show ?thesis using i st neg sk by (subst loopSparse.simps) simp
      next
        case nd: False
        with k have k': "k < size_w psec" by simp
        have a: "readAt (m_samples ppri) i = Some (m_samples ppri ! i)"
          using i by (simp add: readAt_def size_w_def)
        have b: "readAt (m_samples psec) k = Some (m_samples psec ! k)"
          using k' by (simp add: readAt_def size_w_def)
        have x: "(k, dn) = (k, dn)" by simp
        show ?thesis
          using i st neg sk nd a b
            "1.IH"(2) [OF i st neg sk x nd a b "1.prems"(1) "1.prems"(2) k']
          by (subst loopSparse.simps) simp
      qed
    qed
  qed
qed

lemma candidateUniform_empty_secondary:
  assumes "size_w psec = 0" and "0 < size_w ppri"
    and "0 \<le> sint (deltaFsUniform ppri psec d)"
    and "deltaFsUniform ppri psec d \<le> m_timescale psec"
  shows "candidateUniform ppri psec d = Inl OutOfBounds"
proof -
  have t: "targetUniform ppri (deltaFsUniform ppri psec d) 0 = deltaFsUniform ppri psec d"
    by (simp add: targetUniform_def)
  have sk: "skipUniform (m_timescale psec) 0 (deltaFsUniform ppri psec d) 0 = (0, False)"
    using assms(4) by (subst skipUniform.simps) (simp add: not_less)
  have a: "readAt (m_samples ppri) 0 = Some (m_samples ppri ! 0)"
    using assms(2) by (simp add: readAt_def size_w_def)
  have b: "readAt (m_samples psec) 0 = None"
    using assms(1) by (simp add: readAt_def size_w_def)
  show ?thesis
    unfolding candidateUniform_def
    using assms(1,2,3) by (subst loopUniform.simps) (simp add: t sk a b)
qed

lemma candidateSparse_empty_secondary:
  assumes "m_offsets psec = []" and "0 < size_w ppri"
    and "startSparse ppri 0 = Some start"
    and "0 \<le> sint (start + deltaFsSparse ppri d)"
  shows "candidateSparse ppri psec d = Inl OutOfBounds"
proof -
  have e: "endSparse psec 0 = None"
    using assms(1) by (simp add: endSparse_def readAt_def)
  have sk: "skipSparse psec (size_w psec) (start + deltaFsSparse ppri d) 0 = Inl OutOfBounds"
    by (subst skipSparse.simps) (simp add: e)
  show ?thesis
    unfolding candidateSparse_def
    using assms(2,3,4) by (subst loopSparse.simps) (simp add: sk)
qed

text \<open>
  C10.  With a secondary waveform of at least one sample (and, for the sparse path, one
  offset and one duration per sample in both waveforms) no candidate reads outside an
  array.  With an empty secondary waveform the read at cursor 0 happens before any
  comparison of the cursor with the length: on the uniform path whenever the first
  target is non-negative and not beyond one secondary sample period, on the sparse path
  whenever the first target is non-negative; the candidate then reads out of bounds.
\<close>

theorem secondary_reads_need_nonempty:
  "(0 < size_w psec \<longrightarrow> candidateUniform ppri psec d \<noteq> Inl OutOfBounds)
   \<and> (0 < size_w ssec \<and> wellFormedSparse spri \<and> wellFormedSparse ssec \<longrightarrow>
        candidateSparse spri ssec d \<noteq> Inl OutOfBounds)
   \<and> (size_w psec = 0 \<and> 0 < size_w ppri \<and> 0 \<le> sint (deltaFsUniform ppri psec d)
        \<and> deltaFsUniform ppri psec d \<le> m_timescale psec \<longrightarrow>
        candidateUniform ppri psec d = Inl OutOfBounds)
   \<and> (m_offsets ssec = [] \<and> 0 < size_w spri \<and> startSparse spri 0 = Some start
        \<and> 0 \<le> sint (start + deltaFsSparse spri d) \<longrightarrow>
        candidateSparse spri ssec d = Inl OutOfBounds)"
proof (intro conjI impI)
  assume "0 < size_w psec"
  then show "candidateUniform ppri psec d \<noteq> Inl OutOfBounds"
    unfolding candidateUniform_def by (rule loopUniform_in_bounds)
next
  assume "0 < size_w ssec \<and> wellFormedSparse spri \<and> wellFormedSparse ssec"
  then show "candidateSparse spri ssec d \<noteq> Inl OutOfBounds"
    unfolding candidateSparse_def by (simp add: loopSparse_in_bounds)
next
  assume "size_w psec = 0 \<and> 0 < size_w ppri \<and> 0 \<le> sint (deltaFsUniform ppri psec d)
      \<and> deltaFsUniform ppri psec d \<le> m_timescale psec"
  then show "candidateUniform ppri psec d = Inl OutOfBounds"
    by (simp add: candidateUniform_empty_secondary)
next
  assume "m_offsets ssec = [] \<and> 0 < size_w spri \<and> startSparse spri 0 = Some start
      \<and> 0 \<le> sint (start + deltaFsSparse spri d)"
  then show "candidateSparse spri ssec d = Inl OutOfBounds"
    by (simp add: candidateSparse_empty_secondary)
qed

theorem secondary_reads_witness:
  "0 < size_w uSec \<and> candidateUniform uPri uSec 0 \<noteq> Inl OutOfBounds
   \<and> 0 < size_w sSec \<and> wellFormedSparse sPri \<and> wellFormedSparse sSec
   \<and> candidateSparse sPri sSec 0 \<noteq> Inl OutOfBounds
   \<and> size_w uEmpty = 0 \<and> 0 < size_w uPri \<and> 0 \<le> sint (deltaFsUniform uPri uEmpty 0)
   \<and> deltaFsUniform uPri uEmpty 0 \<le> m_timescale uEmpty
   \<and> candidateUniform uPri uEmpty 0 = Inl OutOfBounds
   \<and> m_offsets sEmpty = [] \<and> 0 < size_w sPri \<and> startSparse sPri 0 = Some 0
   \<and> 0 \<le> sint (0 + deltaFsSparse sPri 0)
   \<and> candidateSparse sPri sEmpty 0 = Inl OutOfBounds"
proof -
  have a: "0 < size_w uSec" by code_simp
  have b: "0 < size_w sSec \<and> wellFormedSparse sPri \<and> wellFormedSparse sSec" by code_simp
  have c: "size_w uEmpty = 0 \<and> 0 < size_w uPri \<and> 0 \<le> sint (deltaFsUniform uPri uEmpty 0)
      \<and> deltaFsUniform uPri uEmpty 0 \<le> m_timescale uEmpty" by code_simp
  have d: "m_offsets sEmpty = [] \<and> 0 < size_w sPri \<and> startSparse sPri 0 = Some 0
      \<and> 0 \<le> sint (0 + deltaFsSparse sPri 0)" by code_simp
  from secondary_reads_need_nonempty [of uSec uPri 0 sSec sPri] a b
  have 1: "candidateUniform uPri uSec 0 \<noteq> Inl OutOfBounds"
    and 2: "candidateSparse sPri sSec 0 \<noteq> Inl OutOfBounds" by blast+
  from secondary_reads_need_nonempty [of uEmpty uPri 0 sEmpty sPri 0] c d
  have 3: "candidateUniform uPri uEmpty 0 = Inl OutOfBounds"
    and 4: "candidateSparse sPri sEmpty 0 = Inl OutOfBounds" by blast+
  from a b c d 1 2 3 4 show ?thesis by blast
qed

section \<open>A window without any overlap\<close>

lemma set_searchWindow:
  "d \<in> set (searchWindow m) \<Longrightarrow> \<exists>k. d = word_of_int k \<and> - m \<le> k \<and> k < m"
  by (auto simp: searchWindow_def)

lemma set_ompSchedule: "set (ompSchedule rank m) = set (searchWindow m)"
  by (simp add: ompSchedule_def)

lemma early_target_negative:
  assumes "- 30000 \<le> k" and "k < 30000" and "i < 2"
  shows "sint (targetUniform uPriEarly (deltaFsUniform uPriEarly uSecLate (word_of_int k)) i) < 0"
proof -
  define x where "x = int i + k - 1000000000"
  have w: "targetUniform uPriEarly (deltaFsUniform uPriEarly uSecLate (word_of_int k)) i
      = (word_of_int x :: 64 word)"
    by (simp add: targetUniform_def deltaFsUniform_def uPriEarly_def uSecLate_def
        uniformWaveform_def x_def)
  have lo: "- (2 ^ 63) \<le> x" using assms by (simp add: x_def)
  have hi: "x < 2 ^ 63" using assms by (simp add: x_def)
  have "sint (word_of_int x :: 64 word) = x"
    using lo hi by (simp add: signed_of_int signed_take_bit_int_eq_self)
  moreover have "x < 0" using assms by (simp add: x_def)
  ultimately show ?thesis by (simp add: w)
qed

lemma early_candidate_zero:
  assumes "- 30000 \<le> k" and "k < 30000"
  shows "candidateUniform uPriEarly uSecLate (word_of_int k) = Inr (Fin 0, 0)"
proof -
  have sz: "size_w uPriEarly = 2"
    by (simp add: size_w_def uPriEarly_def uniformWaveform_def)
  have n0: "sint (targetUniform uPriEarly (deltaFsUniform uPriEarly uSecLate (word_of_int k)) 0) < 0"
    using early_target_negative [OF assms, of 0] by simp
  have n1: "sint (targetUniform uPriEarly (deltaFsUniform uPriEarly uSecLate (word_of_int k))
      (Suc 0)) < 0"
    using early_target_negative [OF assms, of "Suc 0"] by simp
  have 2: "loopUniform uPriEarly uSecLate (deltaFsUniform uPriEarly uSecLate (word_of_int k))
      (Suc (Suc 0)) 0 (Fin 0) 0 = Inr (Fin 0, 0)"
    by (subst loopUniform.simps) (simp add: sz)
  have 1: "loopUniform uPriEarly uSecLate (deltaFsUniform uPriEarly uSecLate (word_of_int k))
      (Suc 0) 0 (Fin 0) 0 = Inr (Fin 0, 0)"
    by (subst loopUniform.simps) (simp add: sz n1 2)
  show ?thesis
    unfolding candidateUniform_def
    by (subst loopUniform.simps) (simp add: sz n0 1)
qed

lemma early_window_zero:
  "\<forall>d\<in>set (searchWindow 30000). zeroOverlap (candidateUniform uPriEarly uSecLate d)"
proof
  fix d assume "d \<in> set (searchWindow 30000)"
  then obtain k where "d = word_of_int k" "- 30000 \<le> k" "k < 30000"
    using set_searchWindow by blast
  then show "zeroOverlap (candidateUniform uPriEarly uSecLate d)"
    by (simp add: early_candidate_zero zeroOverlap_def)
qed

lemma crunch_fold_none:
  "\<forall>i\<in>set xs. \<not> dgt (corrOut i) (Fin 0) \<Longrightarrow>
     fold (crunchStep corrOut m) xs (Fin 0, 0) = (Fin 0, 0)"
  by (induction xs) (simp_all add: crunchStep_def)

lemma crunchResults_none:
  "\<forall>i<nat (2 * m). \<not> dgt (corrOut i) (Fin 0) \<Longrightarrow> crunchResults corrOut m = (Fin 0, 0)"
  unfolding crunchResults_def by (rule crunch_fold_none) simp

text \<open>
  C3, as amended.  When every candidate of a run matched no sample pair, a CPU run leaves
  the running best pair as it found it; in the state the constructor leaves, that pair is
  correlation zero and offset zero.  On the accelerator path the scan of the output
  buffer yields correlation zero and offset zero whenever no entry compares greater than
  zero, in particular when all entries are not-a-number.  The offset is zero then, not
  the first candidate of the window.
\<close>

theorem no_overlap_outcome:
  "((\<forall>d\<in>set ds. zeroOverlap (candidateUniform ppri psec d)) \<longrightarrow>
      DoProcessWaveformUniformUnequalRate ds ppri psec s = Inr (logEvents [TraceCpuEvaluated] s)
      \<and> m_bestCorrelation (logEvents [TraceCpuEvaluated] s) = m_bestCorrelation s
      \<and> m_bestCorrelationOffset (logEvents [TraceCpuEvaluated] s) = m_bestCorrelationOffset s)
   \<and> ((\<forall>d\<in>set ds. zeroOverlap (candidateSparse spri ssec d)) \<longrightarrow>
      DoProcessWaveformSparse ds spri ssec s = Inr s)
   \<and> ((\<forall>i<nat (2 * m_maxSkewSamples s).
          \<not> dgt (corrOutAfterJob env
                    (mkArgs ppri psec (word_of_int (- m_maxSkewSamples s)))
                    (m_samples ppri) (m_samples psec) i) (Fin 0)) \<longrightarrow>
      m_bestCorrelation (DoProcessWaveformUniformUnequalRateVulkan env ppri psec s) = Fin 0
      \<and> m_bestCorrelationOffset (DoProcessWaveformUniformUnequalRateVulkan env ppri psec s) = 0)
   \<and> m_bestCorrelation ScopeDeskewWizard_ctor = Fin 0
   \<and> m_bestCorrelationOffset ScopeDeskewWizard_ctor = 0"
proof (intro conjI impI)
  assume "\<forall>d\<in>set ds. zeroOverlap (candidateUniform ppri psec d)"
  then show "DoProcessWaveformUniformUnequalRate ds ppri psec s
      = Inr (logEvents [TraceCpuEvaluated] s)"
    unfolding DoProcessWaveformUniformUnequalRate_def
    by (simp add: reduce_all_zero [OF zeroSum_uniform])
next
  assume "\<forall>d\<in>set ds. zeroOverlap (candidateSparse spri ssec d)"
  then show "DoProcessWaveformSparse ds spri ssec s = Inr s"
    unfolding DoProcessWaveformSparse_def
    by (simp add: reduce_all_zero [OF zeroSum_sparse])
next
  assume a: "\<forall>i<nat (2 * m_maxSkewSamples s).
      \<not> dgt (corrOutAfterJob env (mkArgs ppri psec (word_of_int (- m_maxSkewSamples s)))
              (m_samples ppri) (m_samples psec) i) (Fin 0)"
  show "m_bestCorrelation (DoProcessWaveformUniformUnequalRateVulkan env ppri psec s) = Fin 0"
    using crunchResults_none [OF a]
    by (simp add: DoProcessWaveformUniformUnequalRateVulkan_def logEvents_def)
  show "m_bestCorrelationOffset (DoProcessWaveformUniformUnequalRateVulkan env ppri psec s) = 0"
    using crunchResults_none [OF a]
    by (simp add: DoProcessWaveformUniformUnequalRateVulkan_def logEvents_def)
qed (simp_all add: logEvents_def ScopeDeskewWizard_ctor_def)

theorem no_overlap_outcome_witness:
  "list_all (\<lambda>d. zeroOverlap (candidateUniform uPriEarly uSecLate d)) (searchWindow 2)
   \<and> DoProcessWaveformUniformUnequalRate (searchWindow 2) uPriEarly uSecLate
        ScopeDeskewWizard_ctor
       = Inr (logEvents [TraceCpuEvaluated] ScopeDeskewWizard_ctor)
   \<and> list_all (\<lambda>d. zeroOverlap (candidateSparse sPriEarly sSec d)) (searchWindow 2)
   \<and> DoProcessWaveformSparse (searchWindow 2) sPriEarly sSec ScopeDeskewWizard_ctor
       = Inr ScopeDeskewWizard_ctor
   \<and> m_bestCorrelationOffset
        (DoProcessWaveformUniformUnequalRateVulkan (frame False None None True True NaN)
           uPri uSec ScopeDeskewWizard_ctor) = 0"
proof -
  have u: "list_all (\<lambda>d. zeroOverlap (candidateUniform uPriEarly uSecLate d)) (searchWindow 2)"
    by code_simp
  have s: "list_all (\<lambda>d. zeroOverlap (candidateSparse sPriEarly sSec d)) (searchWindow 2)"
    by code_simp
  have g: "\<forall>i<nat (2 * m_maxSkewSamples ScopeDeskewWizard_ctor).
      \<not> dgt (corrOutAfterJob (frame False None None True True NaN)
               (mkArgs uPri uSec (word_of_int (- m_maxSkewSamples ScopeDeskewWizard_ctor)))
               (m_samples uPri) (m_samples uSec) i) (Fin 0)"
    by (simp add: frame_def)
  from no_overlap_outcome [of "searchWindow 2" uPriEarly uSecLate ScopeDeskewWizard_ctor
      sPriEarly sSec "frame False None None True True NaN"] u s
  have 1: "DoProcessWaveformUniformUnequalRate (searchWindow 2) uPriEarly uSecLate
        ScopeDeskewWizard_ctor = Inr (logEvents [TraceCpuEvaluated] ScopeDeskewWizard_ctor)"
    and 2: "DoProcessWaveformSparse (searchWindow 2) sPriEarly sSec ScopeDeskewWizard_ctor
       = Inr ScopeDeskewWizard_ctor"
    by (simp_all add: list_all_iff)
  from no_overlap_outcome [of "[]" uPri uSec ScopeDeskewWizard_ctor
      sPri sSec "frame False None None True True NaN"] g
  have 3: "m_bestCorrelationOffset
        (DoProcessWaveformUniformUnequalRateVulkan (frame False None None True True NaN)
           uPri uSec ScopeDeskewWizard_ctor) = 0"
    by blast
  from u s 1 2 3 show ?thesis by blast
qed

text \<open>
  The claim as stated fails on the first trial of a pair that never overlaps inside the
  window of 30000 samples: every candidate matched no pair, and the run leaves the offset
  at zero, which is not the first candidate of the window.
\<close>

theorem first_candidate_counterexample:
  "list_all (\<lambda>d. zeroOverlap (candidateUniform uPriEarly uSecLate d))
      (ompSchedule (\<lambda>d. 0) (m_maxSkewSamples ScopeDeskewWizard_ctor))
   \<and> DoProcessWaveformUniformUnequalRate
        (ompSchedule (\<lambda>d. 0) (m_maxSkewSamples ScopeDeskewWizard_ctor))
        uPriEarly uSecLate ScopeDeskewWizard_ctor
       = Inr (logEvents [TraceCpuEvaluated] ScopeDeskewWizard_ctor)
   \<and> m_bestCorrelationOffset (logEvents [TraceCpuEvaluated] ScopeDeskewWizard_ctor)
       \<noteq> word_of_int (- m_maxSkewSamples ScopeDeskewWizard_ctor)"
proof -
  have m: "m_maxSkewSamples ScopeDeskewWizard_ctor = 30000"
    by (simp add: ScopeDeskewWizard_ctor_def)
  have z: "\<forall>d\<in>set (ompSchedule (\<lambda>d. 0) (m_maxSkewSamples ScopeDeskewWizard_ctor)).
      zeroOverlap (candidateUniform uPriEarly uSecLate d)"
    using early_window_zero by (simp add: m set_ompSchedule)
  have r: "reduceCandidates (candidateUniform uPriEarly uSecLate)
      (ompSchedule (\<lambda>d. 0) (m_maxSkewSamples ScopeDeskewWizard_ctor)) ScopeDeskewWizard_ctor
      = Inr ScopeDeskewWizard_ctor"
    using z by (rule reduce_all_zero [OF zeroSum_uniform])
  have o: "m_bestCorrelationOffset (logEvents [TraceCpuEvaluated] ScopeDeskewWizard_ctor)
      \<noteq> word_of_int (- m_maxSkewSamples ScopeDeskewWizard_ctor)"
    by (simp add: logEvents_def ScopeDeskewWizard_ctor_def)
  show ?thesis
    using z r o by (simp add: DoProcessWaveformUniformUnequalRate_def list_all_iff)
qed

section \<open>What a run over the candidates changes\<close>

lemma updateBest_same: "sameButBest s (updateBest x d s)"
  by (simp add: sameButBest_def updateBest_def)

lemma updateBest_mono:
  "m_bestCorrelation s \<noteq> NaN \<Longrightarrow>
     dle (m_bestCorrelation s) (m_bestCorrelation (updateBest x d s))"
  by (simp add: updateBest_def dgt_imp_dle dle_refl)

lemma reduce_same:
  "reduceCandidates candidate ds s = Inr s' \<Longrightarrow> sameButBest s s'"
proof (induction ds arbitrary: s)
  case Nil
  then show ?case by (simp add: sameButBest_def)
next
  case (Cons d ds)
  from Cons.prems obtain c n where
    r: "reduceCandidates candidate ds (updateBest (ddiv c n) d s) = Inr s'"
    by (auto split: sum.splits prod.splits)
  from Cons.IH [OF r] updateBest_same [of s "ddiv c n" d]
  show ?case by (simp add: sameButBest_def)
qed

lemma dle_not_NaN: "dle x y \<Longrightarrow> x \<noteq> NaN \<and> y \<noteq> NaN"
  by (simp add: dle_def)

lemma reduce_mono:
  "reduceCandidates candidate ds s = Inr s' \<Longrightarrow> m_bestCorrelation s \<noteq> NaN \<Longrightarrow>
     dle (m_bestCorrelation s) (m_bestCorrelation s')"
proof (induction ds arbitrary: s)
  case Nil
  then show ?case by (simp add: dle_refl)
next
  case (Cons d ds)
  from Cons.prems(1) obtain c n where
    r: "reduceCandidates candidate ds (updateBest (ddiv c n) d s) = Inr s'"
    by (auto split: sum.splits prod.splits)
  have 1: "dle (m_bestCorrelation s) (m_bestCorrelation (updateBest (ddiv c n) d s))"
    using Cons.prems(2) by (rule updateBest_mono)
  then have "m_bestCorrelation (updateBest (ddiv c n) d s) \<noteq> NaN"
    by (simp add: dle_not_NaN)
  from Cons.IH [OF r this] 1 show ?case by (rule dle_trans [rotated])
qed

lemma reduce_stale:
  "reduceCandidates candidate ds s = Inr s' \<Longrightarrow>
     noneGreater candidate ds (m_bestCorrelation s) \<Longrightarrow> s' = s"
proof (induction ds arbitrary: s)
  case Nil
  then show ?case by simp
next
  case (Cons d ds)
  from Cons.prems(1) obtain c n where
    c: "candidate d = Inr (c, n)"
    and r: "reduceCandidates candidate ds (updateBest (ddiv c n) d s) = Inr s'"
    by (auto split: sum.splits prod.splits)
  from Cons.prems(2) c have u: "updateBest (ddiv c n) d s = s"
    by (simp add: noneGreater_def updateBest_def)
  from Cons.prems(2) have "noneGreater candidate ds (m_bestCorrelation s)"
    by (simp add: noneGreater_def)
  with Cons.IH [of s] r u show ?case by simp
qed

section \<open>What one trial changes\<close>

lemma StartCorrelation_cases:
  assumes "StartCorrelation env s = Inr s'"
  shows "(\<exists>upri usec. primaryData env = Some (Uniform upri)
            \<and> secondaryData env = Some (Uniform usec)
            \<and> g_hasShaderInt64 env \<and> g_hasShaderFloat64 env
            \<and> s' = collectSkew (m_timescale upri)
                     (DoProcessWaveformUniformUnequalRateVulkan env upri usec s))
     \<or> (\<exists>upri usec s1. primaryData env = Some (Uniform upri)
            \<and> secondaryData env = Some (Uniform usec)
            \<and> \<not> (g_hasShaderInt64 env \<and> g_hasShaderFloat64 env)
            \<and> reduceCandidates (candidateUniform upri usec)
                 (ompSchedule (ompRank env) (m_maxSkewSamples s)) s = Inr s1
            \<and> s' = collectSkew (m_timescale upri) (logEvents [TraceCpuEvaluated] s1))
     \<or> (\<exists>spri ssec s1. primaryData env = Some (Sparse spri)
            \<and> secondaryData env = Some (Sparse ssec)
            \<and> reduceCandidates (candidateSparse spri ssec)
                 (ompSchedule (ompRank env) (m_maxSkewSamples s)) s = Inr s1
            \<and> s' = collectSkew (m_timescale spri) s1)
     \<or> s' = logEvents [ErrorMixed] s"
  using assms
  by (auto simp: DoProcessWaveformUniformUnequalRate_def DoProcessWaveformSparse_def
      split: option.splits Waveform.splits sum.splits if_splits)

lemma StartCorrelation_keeps:
  assumes "StartCorrelation env s = Inr s'"
  shows "m_state s' = m_state s \<and> m_measureCycle s' = m_measureCycle s
    \<and> m_lastTriggerTimestamp s' = m_lastTriggerTimestamp s
    \<and> m_lastTriggerFs s' = m_lastTriggerFs s
    \<and> m_maxSkewSamples s' = m_maxSkewSamples s"
  using StartCorrelation_cases [OF assms]
  by (auto simp: collectSkew_def logEvents_def DoProcessWaveformUniformUnequalRateVulkan_def
      sameButBest_def dest!: reduce_same)

lemma StartCorrelation_histories:
  assumes "StartCorrelation env s = Inr s'"
  shows "(s' = logEvents [ErrorMixed] s
          \<or> (m_correlations s' = m_correlations s @ [m_bestCorrelation s']
              \<and> (\<exists>timescale. m_skews s' = m_skews s @ [m_bestCorrelationOffset s' * timescale])
              \<and> ErrorMixed \<notin> set (newEvents s s')))
    \<and> prefix (events s) (events s')
    \<and> ArmSingle \<notin> set (newEvents s s')"
  using StartCorrelation_cases [OF assms]
  by (auto simp: collectSkew_def logEvents_def DoProcessWaveformUniformUnequalRateVulkan_def
      sameButBest_def newEvents_def dest!: reduce_same)

text \<open>From here on a trial is used through the lemmas above only.\<close>

declare StartCorrelation.simps [simp del]

section \<open>The progress table\<close>

lemma pastMeasurements_None:
  "pastMeasurements s rows = None
     \<longleftrightarrow> (\<forall>i\<in>set rows. i < length (m_skews s) \<and> i < length (m_correlations s))"
  by (induction rows) (auto simp: readAt_def)

lemma error_is_OutOfBounds: "(err :: error) = OutOfBounds"
  by (cases err) simp

lemma drawProgressTable_None:
  "drawProgressTable env s = None \<longleftrightarrow> (tableVisible env \<longrightarrow> historiesCover s)"
proof -
  have "(\<forall>i\<in>set [0 ..< nat (m_measureCycle s)].
           i < length (m_skews s) \<and> i < length (m_correlations s))
        \<longleftrightarrow> historiesCover s"
    unfolding historiesCover_def
  proof
    assume a: "\<forall>i\<in>set [0 ..< nat (m_measureCycle s)].
        i < length (m_skews s) \<and> i < length (m_correlations s)"
    show "nat (m_measureCycle s) \<le> length (m_skews s)
        \<and> nat (m_measureCycle s) \<le> length (m_correlations s)"
    proof (cases "nat (m_measureCycle s)")
      case 0
      then show ?thesis by simp
    next
      case (Suc n)
      with a have "n < length (m_skews s) \<and> n < length (m_correlations s)" by simp
      with Suc show ?thesis by simp
    qed
  next
    assume "nat (m_measureCycle s) \<le> length (m_skews s)
        \<and> nat (m_measureCycle s) \<le> length (m_correlations s)"
    then show "\<forall>i\<in>set [0 ..< nat (m_measureCycle s)].
        i < length (m_skews s) \<and> i < length (m_correlations s)"
      by auto
  qed
  then show ?thesis
    by (simp add: drawProgressTable_def pastMeasurements_None)
qed

lemma drawProgressTable_Some:
  "drawProgressTable env s = Some err \<longleftrightarrow>
     err = OutOfBounds \<and> tableVisible env \<and> \<not> historiesCover s"
proof -
  have "drawProgressTable env s = Some err \<longleftrightarrow>
      err = OutOfBounds \<and> drawProgressTable env s \<noteq> None"
    by (auto intro: error_is_OutOfBounds)
  then show ?thesis by (simp add: drawProgressTable_None)
qed

lemma DoRender_out_of_bounds:
  assumes "m_state s = STATE_ACQUIRE \<or> m_state s = STATE_CORRELATE \<or> m_state s = STATE_DONE"
    and "tableVisible env" and "\<not> historiesCover s"
  shows "DoRender env s = Inl OutOfBounds"
proof -
  from assms(2,3) have "drawProgressTable env s = Some OutOfBounds"
    by (simp add: drawProgressTable_Some)
  with assms(1) show ?thesis by auto
qed

lemma DoRender_acquire:
  assumes "m_state s = STATE_ACQUIRE" and "DoRender env s = Inr s'"
  shows "(tableVisible env \<longrightarrow> historiesCover s)
    \<and> (s' = s
        \<or> (\<exists>data s1. StartCorrelation env
                        (logEvents [TraceAcquired]
                           (s\<lparr> m_lastTriggerTimestamp := startTimestampOf data,
                               m_lastTriggerFs := startFemtosecondsOf data \<rparr>)) = Inr s1
              \<and> s' = s1\<lparr> m_state := STATE_CORRELATE \<rparr>))"
proof -
  from assms have n: "drawProgressTable env s = None"
    by (cases "drawProgressTable env s") auto
  with assms show ?thesis
    by (auto simp: drawProgressTable_None [symmetric] split: option.splits if_splits sum.splits)
qed

lemma DoRender_quiet:
  assumes "m_state s \<noteq> STATE_ACQUIRE" and "DoRender env s = Inr s'"
  shows "m_correlations s' = m_correlations s \<and> m_skews s' = m_skews s
    \<and> m_bestCorrelation s' = m_bestCorrelation s
    \<and> m_bestCorrelationOffset s' = m_bestCorrelationOffset s
    \<and> m_maxSkewSamples s' = m_maxSkewSamples s
    \<and> prefix (events s) (events s')"
  using assms
  by (cases "m_state s") (auto simp: logEvents_def split: option.splits if_splits)

section \<open>Waiting for a waveform\<close>



section \<open>A pair of mixed representations\<close>

lemma mixed_start:
  "mixedRepresentation env \<Longrightarrow> StartCorrelation env s = Inr (logEvents [ErrorMixed] s)"
  by (subst StartCorrelation.simps)
     (auto simp: mixedRepresentation_def split: option.splits Waveform.splits)

text \<open>
  C6, as the code behaves.  When one of the two waveforms is uniform and the other
  sparse, \<open>StartCorrelation\<close> logs the error and returns normally: nothing is computed,
  nothing is appended, and nothing tells the caller.  So the frame that brought the pair
  moves from \<open>STATE_ACQUIRE\<close> to \<open>STATE_CORRELATE\<close> as after a trial, the next frame
  counts the trial although it has no record, and once the counter has passed the length
  of the histories every frame that draws the progress table reads a history out of
  bounds.
\<close>

theorem mixed_pair_is_counted:
  assumes "mixedRepresentation env"
  shows "StartCorrelation env s = Inr (logEvents [ErrorMixed] s)
    \<and> (\<forall>data. m_state s = STATE_ACQUIRE \<and> (tableVisible env \<longrightarrow> historiesCover s)
          \<and> primaryData env = Some data \<and> signatureOf data \<noteq> storedSignature s \<longrightarrow>
          DoRender env s
            = Inr ((logEvents [ErrorMixed]
                      (logEvents [TraceAcquired]
                         (s\<lparr> m_lastTriggerTimestamp := startTimestampOf data,
                             m_lastTriggerFs := startFemtosecondsOf data \<rparr>)))
                   \<lparr> m_state := STATE_CORRELATE \<rparr>)
          \<and> (\<forall>env' s'. DoRender env s = Inr s' \<and> (tableVisible env' \<longrightarrow> historiesCover s) \<longrightarrow>
                (\<exists>s''. DoRender env' s' = Inr s''
                   \<and> m_measureCycle s'' = m_measureCycle s + 1
                   \<and> m_skews s'' = m_skews s \<and> m_correlations s'' = m_correlations s
                   \<and> (length (m_skews s) = nat (m_measureCycle s) \<and> 0 \<le> m_measureCycle s \<longrightarrow>
                        (\<forall>env''. tableVisible env'' \<longrightarrow>
                           DoRender env'' s'' = Inl OutOfBounds)))))"
proof -
  have 1: "StartCorrelation env s = Inr (logEvents [ErrorMixed] s)" for s
    using assms by (rule mixed_start)
  have 2: "DoRender env s
            = Inr ((logEvents [ErrorMixed]
                      (logEvents [TraceAcquired]
                         (s\<lparr> m_lastTriggerTimestamp := startTimestampOf data,
                             m_lastTriggerFs := startFemtosecondsOf data \<rparr>)))
                   \<lparr> m_state := STATE_CORRELATE \<rparr>)
          \<and> (\<forall>env' s'. DoRender env s = Inr s' \<and> (tableVisible env' \<longrightarrow> historiesCover s) \<longrightarrow>
                (\<exists>s''. DoRender env' s' = Inr s''
                   \<and> m_measureCycle s'' = m_measureCycle s + 1
                   \<and> m_skews s'' = m_skews s \<and> m_correlations s'' = m_correlations s
                   \<and> (length (m_skews s) = nat (m_measureCycle s) \<and> 0 \<le> m_measureCycle s \<longrightarrow>
                        (\<forall>env''. tableVisible env'' \<longrightarrow>
                           DoRender env'' s'' = Inl OutOfBounds))))"
    if a: "m_state s = STATE_ACQUIRE" "tableVisible env \<longrightarrow> historiesCover s"
      "primaryData env = Some data" "signatureOf data \<noteq> storedSignature s" for data
  proof -
    define s1 where "s1 = (logEvents [ErrorMixed]
                      (logEvents [TraceAcquired]
                         (s\<lparr> m_lastTriggerTimestamp := startTimestampOf data,
                             m_lastTriggerFs := startFemtosecondsOf data \<rparr>)))
                   \<lparr> m_state := STATE_CORRELATE \<rparr>"
    from a(2) have n: "drawProgressTable env s = None"
      by (simp add: drawProgressTable_None)
    have r: "DoRender env s = Inr s1"
      using a(1,3,4) n
      by (auto simp: 1 s1_def signatureOf_def storedSignature_def)
    have s1: "m_state s1 = STATE_CORRELATE" "m_measureCycle s1 = m_measureCycle s"
      "m_skews s1 = m_skews s" "m_correlations s1 = m_correlations s"
      by (simp_all add: s1_def logEvents_def)
    have next_frame: "\<exists>s''. DoRender env' s1 = Inr s''
        \<and> m_measureCycle s'' = m_measureCycle s + 1
        \<and> m_skews s'' = m_skews s \<and> m_correlations s'' = m_correlations s
        \<and> (length (m_skews s) = nat (m_measureCycle s) \<and> 0 \<le> m_measureCycle s \<longrightarrow>
              (\<forall>env''. tableVisible env'' \<longrightarrow> DoRender env'' s'' = Inl OutOfBounds))"
      if t: "tableVisible env' \<longrightarrow> historiesCover s" for env' :: Env
    proof -
      from t s1 have c: "tableVisible env' \<longrightarrow> historiesCover s1"
        by (simp add: historiesCover_def)
      then have n1: "drawProgressTable env' s1 = None"
        by (simp add: drawProgressTable_None)
      obtain s2 where r2: "DoRender env' s1 = Inr s2"
        and m2: "m_measureCycle s2 = m_measureCycle s + 1"
          "m_skews s2 = m_skews s" "m_correlations s2 = m_correlations s"
          "m_state s2 = STATE_ACQUIRE \<or> m_state s2 = STATE_DONE"
        using s1 n1 by (cases "nWaveforms \<le> m_measureCycle s + 1") (auto simp: logEvents_def)
      have "DoRender env'' s2 = Inl OutOfBounds"
        if "length (m_skews s) = nat (m_measureCycle s)" "0 \<le> m_measureCycle s"
          "tableVisible env''" for env''
      proof (rule DoRender_out_of_bounds)
        show "m_state s2 = STATE_ACQUIRE \<or> m_state s2 = STATE_CORRELATE \<or> m_state s2 = STATE_DONE"
          using m2(4) by blast
        show "tableVisible env''" by (rule that(3))
        show "\<not> historiesCover s2"
          using that(1,2) m2 by (simp add: historiesCover_def nat_add_distrib)
      qed
      with r2 m2 show ?thesis by blast
    qed
    have later: "\<forall>env' s'. DoRender env s = Inr s' \<and> (tableVisible env' \<longrightarrow> historiesCover s) \<longrightarrow>
        (\<exists>s''. DoRender env' s' = Inr s''
           \<and> m_measureCycle s'' = m_measureCycle s + 1
           \<and> m_skews s'' = m_skews s \<and> m_correlations s'' = m_correlations s
           \<and> (length (m_skews s) = nat (m_measureCycle s) \<and> 0 \<le> m_measureCycle s \<longrightarrow>
                (\<forall>env''. tableVisible env'' \<longrightarrow> DoRender env'' s'' = Inl OutOfBounds)))"
    proof (intro allI impI)
      fix env' :: Env and s' :: ScopeDeskewWizard
      assume h: "DoRender env s = Inr s' \<and> (tableVisible env' \<longrightarrow> historiesCover s)"
      from h r have e: "s' = s1" by (metis sum.inject(2))
      from h have "tableVisible env' \<longrightarrow> historiesCover s" by blast
      from next_frame [OF this]
      show "\<exists>s''. DoRender env' s' = Inr s''
           \<and> m_measureCycle s'' = m_measureCycle s + 1
           \<and> m_skews s'' = m_skews s \<and> m_correlations s'' = m_correlations s
           \<and> (length (m_skews s) = nat (m_measureCycle s) \<and> 0 \<le> m_measureCycle s \<longrightarrow>
                (\<forall>env''. tableVisible env'' \<longrightarrow> DoRender env'' s'' = Inl OutOfBounds))"
        unfolding e .
    qed
    from r later show ?thesis unfolding s1_def [symmetric] by (intro conjI)
  qed
  from 1 [of s] 2 show ?thesis by blast
qed

theorem mixed_pair_witness:
  "mixedRepresentation mixedFrame
   \<and> StartCorrelation mixedFrame acquiring = Inr (logEvents [ErrorMixed] acquiring)
   \<and> m_state (projr (DoRender mixedFrame acquiring)) = STATE_CORRELATE
   \<and> m_skews (projr (DoRender mixedFrame acquiring)) = []
   \<and> m_correlations (projr (DoRender mixedFrame acquiring)) = []
   \<and> m_state (projr (runFrames abortedTrial ScopeDeskewWizard_ctor)) = STATE_ACQUIRE
   \<and> m_measureCycle (projr (runFrames abortedTrial ScopeDeskewWizard_ctor)) = 1
   \<and> m_skews (projr (runFrames abortedTrial ScopeDeskewWizard_ctor)) = []
   \<and> m_correlations (projr (runFrames abortedTrial ScopeDeskewWizard_ctor)) = []
   \<and> events (projr (runFrames abortedTrial ScopeDeskewWizard_ctor))
       = [TraceStarting, ArmSingle, TraceAcquired, ErrorMixed, TraceAcquiringNext, ArmSingle]
   \<and> runFrames (abortedTrial @ [idleFrame]) ScopeDeskewWizard_ctor = Inl OutOfBounds"
proof -
  have m: "mixedRepresentation mixedFrame" by code_simp
  have p: "m_state acquiring = STATE_ACQUIRE \<and> tableVisible mixedFrame
       \<and> historiesCover acquiring
       \<and> primaryData mixedFrame = Some (Uniform uPriSecond)
       \<and> signatureOf (Uniform uPriSecond) \<noteq> storedSignature acquiring" by code_simp
  note t = mixed_pair_is_counted [OF m, of acquiring]
  from t have 1: "StartCorrelation mixedFrame acquiring = Inr (logEvents [ErrorMixed] acquiring)"
    by blast
  from t p have 2: "DoRender mixedFrame acquiring
      = Inr ((logEvents [ErrorMixed]
                (logEvents [TraceAcquired]
                   (acquiring\<lparr> m_lastTriggerTimestamp := startTimestampOf (Uniform uPriSecond),
                       m_lastTriggerFs := startFemtosecondsOf (Uniform uPriSecond) \<rparr>)))
             \<lparr> m_state := STATE_CORRELATE \<rparr>)"
    by blast
  have 3: "m_state (projr (DoRender mixedFrame acquiring)) = STATE_CORRELATE
   \<and> m_skews (projr (DoRender mixedFrame acquiring)) = []
   \<and> m_correlations (projr (DoRender mixedFrame acquiring)) = []"
    unfolding 2 by code_simp
  have 4: "m_state (projr (runFrames abortedTrial ScopeDeskewWizard_ctor)) = STATE_ACQUIRE
   \<and> m_measureCycle (projr (runFrames abortedTrial ScopeDeskewWizard_ctor)) = 1
   \<and> m_skews (projr (runFrames abortedTrial ScopeDeskewWizard_ctor)) = []
   \<and> m_correlations (projr (runFrames abortedTrial ScopeDeskewWizard_ctor)) = []
   \<and> events (projr (runFrames abortedTrial ScopeDeskewWizard_ctor))
       = [TraceStarting, ArmSingle, TraceAcquired, ErrorMixed, TraceAcquiringNext, ArmSingle]"
    by code_simp
  have 5: "runFrames (abortedTrial @ [idleFrame]) ScopeDeskewWizard_ctor = Inl OutOfBounds"
    by code_simp
  from m 1 3 4 5 show ?thesis by simp
qed

section \<open>Invariants of a session\<close>

lemma newEvents_append: "prefix (events s) (events s') \<Longrightarrow> events s' = events s @ newEvents s s'"
  by (auto simp: newEvents_def prefix_def)

lemma StartCorrelation_historyInv:
  assumes r: "StartCorrelation env s = Inr s'"
    and inv: "historyInv s"
    and cpu: "SubmitAndBlock \<notin> set (events s')"
  shows "historyInv s'"
proof -
  from StartCorrelation_cases [OF r]
  consider
    (gpu) upri usec where
      "s' = collectSkew (m_timescale upri)
              (DoProcessWaveformUniformUnequalRateVulkan env upri usec s)"
  | (cpu) ts es s1 where
      "reduceCandidates (fst ts) (ompSchedule (ompRank env) (m_maxSkewSamples s)) s = Inr s1"
      "s' = collectSkew (snd ts) (logEvents es s1)"
  | (mixed) "s' = logEvents [ErrorMixed] s"
  proof -
    assume g: "\<And>upri usec. s' = collectSkew (m_timescale upri)
        (DoProcessWaveformUniformUnequalRateVulkan env upri usec s) \<Longrightarrow> thesis"
      and c: "\<And>ts s1 es. reduceCandidates (fst ts)
          (ompSchedule (ompRank env) (m_maxSkewSamples s)) s = Inr s1 \<Longrightarrow>
          s' = collectSkew (snd ts) (logEvents es s1) \<Longrightarrow> thesis"
      and m: "s' = logEvents [ErrorMixed] s \<Longrightarrow> thesis"
    from StartCorrelation_cases [OF r] show thesis
    proof (elim disjE exE conjE)
      fix upri usec
      assume "s' = collectSkew (m_timescale upri)
          (DoProcessWaveformUniformUnequalRateVulkan env upri usec s)"
      then show thesis by (rule g)
    next
      fix upri usec s1
      assume "reduceCandidates (candidateUniform upri usec)
          (ompSchedule (ompRank env) (m_maxSkewSamples s)) s = Inr s1"
        and "s' = collectSkew (m_timescale upri) (logEvents [TraceCpuEvaluated] s1)"
      then show thesis
        using c [of "(candidateUniform upri usec, m_timescale upri)" s1 "[TraceCpuEvaluated]"]
        by simp
    next
      fix spri ssec s1
      assume "reduceCandidates (candidateSparse spri ssec)
          (ompSchedule (ompRank env) (m_maxSkewSamples s)) s = Inr s1"
        and "s' = collectSkew (m_timescale spri) s1"
      then show thesis
        using c [of "(candidateSparse spri ssec, m_timescale spri)" s1 "[]"]
        by (simp add: logEvents_def)
    next
      assume "s' = logEvents [ErrorMixed] s"
      then show thesis by (rule m)
    qed
  qed
  then show ?thesis
  proof cases
    case gpu
    then have "SubmitAndBlock \<in> set (events s')"
      by (simp add: collectSkew_def logEvents_def DoProcessWaveformUniformUnequalRateVulkan_def)
    with cpu show ?thesis by simp
  next
    case (cpu ts es s1)
    from reduce_same [OF cpu(1)] have same: "m_correlations s1 = m_correlations s"
      by (simp add: sameButBest_def)
    from inv have b: "m_bestCorrelation s \<noteq> NaN" by (simp add: historyInv_def)
    from reduce_mono [OF cpu(1) b] have mono: "dle (m_bestCorrelation s) (m_bestCorrelation s1)" .
    then have b1: "m_bestCorrelation s1 \<noteq> NaN" by (simp add: dle_not_NaN)
    have below: "\<forall>c\<in>set (m_correlations s). dle c (m_bestCorrelation s1)"
      using inv mono by (auto simp: historyInv_def intro: dle_trans)
    show ?thesis
      using inv b1 below
      by (simp add: cpu(2) historyInv_def collectSkew_def logEvents_def same
          sorted_wrt_append dle_refl)
  next
    case mixed
    with inv show ?thesis by (simp add: historyInv_def logEvents_def)
  qed
qed

lemma StartCorrelation_prefix:
  assumes "StartCorrelation env s = Inr s'"
  shows "prefix (events s) (events s') \<and> prefix (m_skews s) (m_skews s')
    \<and> prefix (m_correlations s) (m_correlations s')"
proof -
  note h = StartCorrelation_histories [OF assms]
  then have p: "prefix (events s) (events s')" by blast
  from h consider (mixed) "s' = logEvents [ErrorMixed] s"
    | (appended) ts where "m_correlations s' = m_correlations s @ [m_bestCorrelation s']"
        "m_skews s' = m_skews s @ [m_bestCorrelationOffset s' * ts]"
    by blast
  then show ?thesis
  proof cases
    case mixed
    with p show ?thesis by (simp add: logEvents_def)
  next
    case appended
    with p show ?thesis by simp
  qed
qed

lemma StartCorrelation_counts:
  assumes r: "StartCorrelation env s = Inr s'"
    and ok: "ErrorMixed \<notin> set (events s')"
  shows "length (m_skews s') = length (m_skews s) + 1
    \<and> length (m_correlations s') = length (m_correlations s) + 1
    \<and> count_list (events s') ArmSingle = count_list (events s) ArmSingle"
proof -
  note h = StartCorrelation_histories [OF r]
  from h have p: "prefix (events s) (events s')" by blast
  then have e: "events s' = events s @ newEvents s s'"
    by (rule newEvents_append)
  from h have "ArmSingle \<notin> set (newEvents s s')" by blast
  then have "count_list (newEvents s s') ArmSingle = 0"
    by (simp add: count_list_0_iff)
  then have a: "count_list (events s') ArmSingle = count_list (events s) ArmSingle"
    by (subst e) simp
  have "ErrorMixed \<in> set (events (logEvents [ErrorMixed] s))"
    by (simp add: logEvents_def)
  with ok have "s' \<noteq> logEvents [ErrorMixed] s" by blast
  with h obtain ts where "m_correlations s' = m_correlations s @ [m_bestCorrelation s']"
    "m_skews s' = m_skews s @ [m_bestCorrelationOffset s' * ts]"
    by blast
  with a show ?thesis by simp
qed

lemma DoRender_prefix:
  assumes "DoRender env s = Inr s'"
  shows "prefix (events s) (events s') \<and> prefix (m_skews s) (m_skews s')
    \<and> prefix (m_correlations s) (m_correlations s')"
proof (cases "m_state s = STATE_ACQUIRE")
  case True
  from DoRender_acquire [OF True assms] show ?thesis
  proof (elim disjE exE conjE)
    assume "s' = s" then show ?thesis by simp
  next
    fix data s1
    assume s1: "StartCorrelation env
        (logEvents [TraceAcquired]
           (s\<lparr> m_lastTriggerTimestamp := startTimestampOf data,
               m_lastTriggerFs := startFemtosecondsOf data \<rparr>)) = Inr s1"
      and s': "s' = s1\<lparr> m_state := STATE_CORRELATE \<rparr>"
    from StartCorrelation_prefix [OF s1]
    have "prefix (events s @ [TraceAcquired]) (events s1)"
      and "prefix (m_skews s) (m_skews s1)"
      and "prefix (m_correlations s) (m_correlations s1)"
      by (simp_all add: logEvents_def)
    then show ?thesis
      using s' by (simp add: append_prefixD)
  qed
next
  case False
  from DoRender_quiet [OF False assms] show ?thesis by simp
qed

lemma DoRender_historyInv:
  assumes inv: "historyInv s" and r: "DoRender env s = Inr s'"
    and cpu: "SubmitAndBlock \<notin> set (events s')"
  shows "historyInv s'"
proof (cases "m_state s = STATE_ACQUIRE")
  case True
  from DoRender_acquire [OF True r] show ?thesis
  proof (elim disjE exE conjE)
    assume "s' = s" with inv show ?thesis by simp
  next
    fix data s1
    assume s1: "StartCorrelation env
        (logEvents [TraceAcquired]
           (s\<lparr> m_lastTriggerTimestamp := startTimestampOf data,
               m_lastTriggerFs := startFemtosecondsOf data \<rparr>)) = Inr s1"
      and s': "s' = s1\<lparr> m_state := STATE_CORRELATE \<rparr>"
    have i0: "historyInv (logEvents [TraceAcquired]
        (s\<lparr> m_lastTriggerTimestamp := startTimestampOf data,
            m_lastTriggerFs := startFemtosecondsOf data \<rparr>))"
      using inv by (simp add: historyInv_def logEvents_def)
    have "SubmitAndBlock \<notin> set (events s1)" using cpu s' by simp
    from StartCorrelation_historyInv [OF s1 i0 this] s' show ?thesis
      by (simp add: historyInv_def)
  qed
next
  case False
  from DoRender_quiet [OF False r] inv show ?thesis
    by (simp add: historyInv_def)
qed

lemma DoRender_trialCounts:
  assumes inv: "trialCounts s" and r: "DoRender env s = Inr s'"
    and ok: "ErrorMixed \<notin> set (events s')"
  shows "trialCounts s'"
proof (cases "m_state s = STATE_ACQUIRE")
  case True
  from DoRender_acquire [OF True r] show ?thesis
  proof (elim disjE exE conjE)
    assume "s' = s" with inv show ?thesis by simp
  next
    fix data s1
    assume s1: "StartCorrelation env
        (logEvents [TraceAcquired]
           (s\<lparr> m_lastTriggerTimestamp := startTimestampOf data,
               m_lastTriggerFs := startFemtosecondsOf data \<rparr>)) = Inr s1"
      and s': "s' = s1\<lparr> m_state := STATE_CORRELATE \<rparr>"
    have "ErrorMixed \<notin> set (events s1)" using ok s' by simp
    from StartCorrelation_counts [OF s1 this] StartCorrelation_keeps [OF s1] inv True s'
    show ?thesis
      by (simp add: trialCounts_def logEvents_def)
  qed
next
  case False
  with r inv show ?thesis
    by (cases "m_state s")
       (auto simp: trialCounts_def logEvents_def nWaveforms_def split: option.splits if_splits)
qed

section \<open>Sessions\<close>

lemma runFrames_append:
  "runFrames (envs1 @ envs2) s
     = (case runFrames envs1 s of Inl err \<Rightarrow> Inl err | Inr s1 \<Rightarrow> runFrames envs2 s1)"
  by (induction envs1 arbitrary: s) (simp_all split: sum.splits)

lemma runFrames_prefix:
  "runFrames envs s = Inr s' \<Longrightarrow>
     prefix (events s) (events s') \<and> prefix (m_skews s) (m_skews s')
     \<and> prefix (m_correlations s) (m_correlations s')"
proof (induction envs arbitrary: s)
  case Nil
  then show ?case by simp
next
  case (Cons env envs)
  from Cons.prems obtain s1 where 1: "DoRender env s = Inr s1"
    and 2: "runFrames envs s1 = Inr s'"
    by (auto simp del: DoRender.simps split: sum.splits)
  from DoRender_prefix [OF 1] Cons.IH [OF 2] show ?case
    by (meson prefix_order.trans)
qed

lemma runFrames_trialCounts:
  "runFrames envs s = Inr s' \<Longrightarrow> trialCounts s \<Longrightarrow> ErrorMixed \<notin> set (events s') \<Longrightarrow>
     trialCounts s'"
proof (induction envs arbitrary: s)
  case Nil
  then show ?case by simp
next
  case (Cons env envs)
  from Cons.prems(1) obtain s1 where 1: "DoRender env s = Inr s1"
    and 2: "runFrames envs s1 = Inr s'"
    by (auto simp del: DoRender.simps split: sum.splits)
  from runFrames_prefix [OF 2] Cons.prems(3) have "ErrorMixed \<notin> set (events s1)"
    by (auto dest: set_mono_prefix)
  from DoRender_trialCounts [OF Cons.prems(2) 1 this] have "trialCounts s1" .
  from Cons.IH [OF 2 this Cons.prems(3)] show ?case .
qed

lemma runFrames_historyInv:
  "runFrames envs s = Inr s' \<Longrightarrow> historyInv s \<Longrightarrow> SubmitAndBlock \<notin> set (events s') \<Longrightarrow>
     historyInv s'"
proof (induction envs arbitrary: s)
  case Nil
  then show ?case by simp
next
  case (Cons env envs)
  from Cons.prems(1) obtain s1 where 1: "DoRender env s = Inr s1"
    and 2: "runFrames envs s1 = Inr s'"
    by (auto simp del: DoRender.simps split: sum.splits)
  from runFrames_prefix [OF 2] Cons.prems(3) have "SubmitAndBlock \<notin> set (events s1)"
    by (auto dest: set_mono_prefix)
  from DoRender_historyInv [OF Cons.prems(2) 1 this] have "historyInv s1" .
  from Cons.IH [OF 2 this Cons.prems(3)] show ?case .
qed

lemma DoRender_done:
  assumes "m_state s = STATE_DONE" and "historiesCover s"
  shows "DoRender env s = Inr s"
proof -
  from assms(2) have "drawProgressTable env s = None"
    by (simp add: drawProgressTable_None)
  with assms(1) show ?thesis by simp
qed

lemma runFrames_done:
  "m_state s = STATE_DONE \<Longrightarrow> historiesCover s \<Longrightarrow> runFrames envs s = Inr s"
  by (induction envs) (simp_all add: DoRender_done del: DoRender.simps)

lemma trialCounts_cover: "trialCounts s \<Longrightarrow> historiesCover s"
  by (cases "m_state s") (auto simp: trialCounts_def historiesCover_def nWaveforms_def)

lemma ctor_trialCounts: "trialCounts (ScopeDeskewWizard_ctor\<lparr> m_maxSkewSamples := m \<rparr>)"
  by (simp add: trialCounts_def ScopeDeskewWizard_ctor_def)

lemma ctor_historyInv: "historyInv (ScopeDeskewWizard_ctor\<lparr> m_maxSkewSamples := m \<rparr>)"
  by (simp add: historyInv_def ScopeDeskewWizard_ctor_def)

text \<open>
  As long as no trial was aborted, the histories cover the trial counter, so that the
  progress table reads inside them.
\<close>

lemma session_histories_cover:
  assumes "runFrames envs (ScopeDeskewWizard_ctor\<lparr> m_maxSkewSamples := m \<rparr>) = Inr s"
    and "ErrorMixed \<notin> set (events s)"
  shows "historiesCover s"
  using runFrames_trialCounts [OF assms(1) ctor_trialCounts assms(2)]
  by (rule trialCounts_cover)

text \<open>
  C8.  Take any session, from the constructed wizard (with any window size) through any
  sequence of frames, that aborted no trial and whose trial counter has reached ten.
  Then the wizard is in \<open>STATE_DONE\<close>; each history holds exactly ten entries, and every
  history seen earlier in the session is a prefix of it (entries are appended in the
  order the trials complete); exactly ten single-shot requests were issued; and no
  further frame changes the wizard at all, so no further acquisition is requested.
\<close>

theorem ten_trials_end_in_done:
  assumes run: "runFrames envs (ScopeDeskewWizard_ctor\<lparr> m_maxSkewSamples := m \<rparr>) = Inr s"
    and noAbort: "ErrorMixed \<notin> set (events s)"
    and complete: "m_measureCycle s = nWaveforms"
  shows "m_state s = STATE_DONE
    \<and> length (m_skews s) = 10 \<and> length (m_correlations s) = 10
    \<and> count_list (events s) ArmSingle = 10
    \<and> (\<forall>envs'. runFrames envs' s = Inr s)
    \<and> (\<forall>envs1 envs2 s1.
          envs = envs1 @ envs2
          \<and> runFrames envs1 (ScopeDeskewWizard_ctor\<lparr> m_maxSkewSamples := m \<rparr>) = Inr s1 \<longrightarrow>
          prefix (m_skews s1) (m_skews s) \<and> prefix (m_correlations s1) (m_correlations s))"
proof -
  from runFrames_trialCounts [OF run ctor_trialCounts noAbort]
  have t: "trialCounts s" .
  have d: "m_state s = STATE_DONE"
    using t complete by (cases "m_state s") (simp_all add: trialCounts_def nWaveforms_def)
  from t d have n: "length (m_skews s) = 10 \<and> length (m_correlations s) = 10
      \<and> count_list (events s) ArmSingle = 10"
    by (simp add: trialCounts_def nWaveforms_def)
  have p: "\<forall>envs1 envs2 s1.
      envs = envs1 @ envs2
      \<and> runFrames envs1 (ScopeDeskewWizard_ctor\<lparr> m_maxSkewSamples := m \<rparr>) = Inr s1 \<longrightarrow>
      prefix (m_skews s1) (m_skews s) \<and> prefix (m_correlations s1) (m_correlations s)"
  proof (intro allI impI)
    fix envs1 envs2 s1
    assume a: "envs = envs1 @ envs2
      \<and> runFrames envs1 (ScopeDeskewWizard_ctor\<lparr> m_maxSkewSamples := m \<rparr>) = Inr s1"
    with run have "runFrames envs2 s1 = Inr s"
      by (simp add: runFrames_append)
    from runFrames_prefix [OF this]
    show "prefix (m_skews s1) (m_skews s) \<and> prefix (m_correlations s1) (m_correlations s)"
      by simp
  qed
  from t d have "historiesCover s" by (simp add: trialCounts_cover)
  from d n p runFrames_done [OF d this] show ?thesis by simp
qed

theorem ten_trials_witness:
  "\<not> isl (runFrames tenTrials smallWizard)
   \<and> ErrorMixed \<notin> set (events (projr (runFrames tenTrials smallWizard)))
   \<and> m_measureCycle (projr (runFrames tenTrials smallWizard)) = nWaveforms
   \<and> m_state (projr (runFrames tenTrials smallWizard)) = STATE_DONE
   \<and> length (m_skews (projr (runFrames tenTrials smallWizard))) = 10
   \<and> count_list (events (projr (runFrames tenTrials smallWizard))) ArmSingle = 10
   \<and> runFrames [dataFrame 11, idleFrame] (projr (runFrames tenTrials smallWizard))
       = Inr (projr (runFrames tenTrials smallWizard))"
proof -
  have r: "\<not> isl (runFrames tenTrials smallWizard)" by code_simp
  then have run: "runFrames tenTrials (ScopeDeskewWizard_ctor\<lparr> m_maxSkewSamples := 2 \<rparr>)
      = Inr (projr (runFrames tenTrials smallWizard))"
    by (simp add: smallWizard_def)
  have e: "ErrorMixed \<notin> set (events (projr (runFrames tenTrials smallWizard)))" by code_simp
  have c: "m_measureCycle (projr (runFrames tenTrials smallWizard)) = nWaveforms" by code_simp
  from ten_trials_end_in_done [OF run e c] r e c show ?thesis by simp
qed

section \<open>The choice of the backend\<close>



lemma dgt_trans: "dgt x y \<Longrightarrow> dgt y z \<Longrightarrow> dgt x z"
  by (cases x; cases y; cases z) simp_all

lemma reduce_changes:
  "reduceCandidates candidate ds s = Inr s' \<Longrightarrow>
     (m_bestCorrelation s' = m_bestCorrelation s
        \<and> m_bestCorrelationOffset s' = m_bestCorrelationOffset s)
     \<or> dgt (m_bestCorrelation s') (m_bestCorrelation s)"
proof (induction ds arbitrary: s)
  case Nil
  then show ?case by simp
next
  case (Cons d ds)
  from Cons.prems obtain c n where
    r: "reduceCandidates candidate ds (updateBest (ddiv c n) d s) = Inr s'"
    by (auto split: sum.splits prod.splits)
  have u: "(m_bestCorrelation (updateBest (ddiv c n) d s) = m_bestCorrelation s
        \<and> m_bestCorrelationOffset (updateBest (ddiv c n) d s) = m_bestCorrelationOffset s)
      \<or> dgt (m_bestCorrelation (updateBest (ddiv c n) d s)) (m_bestCorrelation s)"
    by (simp add: updateBest_def)
  from Cons.IH [OF r] u show ?case
    by (auto intro: dgt_trans)
qed











section \<open>The running best across trials\<close>

lemma cpuCandidate_trial:
  assumes c: "cpuCandidate env = Some (candidate, timescale)"
    and r: "StartCorrelation env s = Inr s'"
  shows "\<exists>s1 es. reduceCandidates candidate (ompSchedule (ompRank env) (m_maxSkewSamples s)) s
            = Inr s1
          \<and> s' = collectSkew timescale (logEvents es s1)"
proof -
  from c consider
    (uniform) upri usec where "primaryData env = Some (Uniform upri)"
      "secondaryData env = Some (Uniform usec)"
      "\<not> (g_hasShaderInt64 env \<and> g_hasShaderFloat64 env)"
      "candidate = candidateUniform upri usec" "timescale = m_timescale upri"
  | (sparse) spri ssec where "primaryData env = Some (Sparse spri)"
      "secondaryData env = Some (Sparse ssec)"
      "candidate = candidateSparse spri ssec" "timescale = m_timescale spri"
    by (auto simp: cpuCandidate_def split: option.splits Waveform.splits if_splits)
  then show ?thesis
  proof cases
    case uniform
    with r obtain s1 where "reduceCandidates candidate
        (ompSchedule (ompRank env) (m_maxSkewSamples s)) s = Inr s1"
      "s' = collectSkew timescale (logEvents [TraceCpuEvaluated] s1)"
      by (auto simp: StartCorrelation.simps DoProcessWaveformUniformUnequalRate_def
          split: sum.splits)
    then show ?thesis by blast
  next
    case sparse
    with r obtain s1 where "reduceCandidates candidate
        (ompSchedule (ompRank env) (m_maxSkewSamples s)) s = Inr s1"
      "s' = collectSkew timescale s1"
      by (auto simp: StartCorrelation.simps DoProcessWaveformSparse_def split: sum.splits)
    then have "s' = collectSkew timescale (logEvents [] s1)"
      by (simp add: logEvents_def)
    with \<open>reduceCandidates candidate _ s = Inr s1\<close> show ?thesis by blast
  qed
qed

lemma cpu_trial_record:
  assumes c: "cpuCandidate env = Some (candidate, timescale)"
    and r: "StartCorrelation env s = Inr s'"
    and b: "m_bestCorrelation s \<noteq> NaN"
  shows "dle (m_bestCorrelation s) (m_bestCorrelation s')
    \<and> ((m_bestCorrelation s' = m_bestCorrelation s
          \<and> m_bestCorrelationOffset s' = m_bestCorrelationOffset s)
        \<or> dgt (m_bestCorrelation s') (m_bestCorrelation s))
    \<and> m_correlations s' = m_correlations s @ [m_bestCorrelation s']
    \<and> m_skews s' = m_skews s @ [m_bestCorrelationOffset s' * timescale]
    \<and> (noneGreater candidate (ompSchedule (ompRank env) (m_maxSkewSamples s))
          (m_bestCorrelation s) \<longrightarrow>
        m_bestCorrelation s' = m_bestCorrelation s
        \<and> m_bestCorrelationOffset s' = m_bestCorrelationOffset s)"
proof -
  from cpuCandidate_trial [OF c r] obtain s1 es where
    1: "reduceCandidates candidate (ompSchedule (ompRank env) (m_maxSkewSamples s)) s = Inr s1"
    and 2: "s' = collectSkew timescale (logEvents es s1)"
    by blast
  have best: "m_bestCorrelation s' = m_bestCorrelation s1"
    "m_bestCorrelationOffset s' = m_bestCorrelationOffset s1"
    by (simp_all add: 2 collectSkew_def logEvents_def)
  from reduce_same [OF 1] have same: "m_correlations s1 = m_correlations s"
    "m_skews s1 = m_skews s"
    by (simp_all add: sameButBest_def)
  have hist: "m_correlations s' = m_correlations s @ [m_bestCorrelation s']"
    "m_skews s' = m_skews s @ [m_bestCorrelationOffset s' * timescale]"
    by (simp_all add: 2 collectSkew_def logEvents_def same)
  have stale: "noneGreater candidate (ompSchedule (ompRank env) (m_maxSkewSamples s))
      (m_bestCorrelation s) \<longrightarrow> s1 = s"
    using reduce_stale [OF 1] by blast
  from reduce_mono [OF 1 b] reduce_changes [OF 1] hist stale show ?thesis
    by (auto simp: best)
qed

lemma cpu_trial_frame:
  assumes acq: "m_state s = STATE_ACQUIRE"
    and r: "DoRender env s = Inr s'"
    and cor: "m_state s' = STATE_CORRELATE"
    and c: "cpuCandidate env = Some (candidate, timescale)"
    and b: "m_bestCorrelation s \<noteq> NaN"
  shows "dle (m_bestCorrelation s) (m_bestCorrelation s')
    \<and> ((m_bestCorrelation s' = m_bestCorrelation s
          \<and> m_bestCorrelationOffset s' = m_bestCorrelationOffset s)
        \<or> dgt (m_bestCorrelation s') (m_bestCorrelation s))
    \<and> m_correlations s' = m_correlations s @ [m_bestCorrelation s']
    \<and> m_skews s' = m_skews s @ [m_bestCorrelationOffset s' * timescale]
    \<and> (noneGreater candidate (ompSchedule (ompRank env) (m_maxSkewSamples s))
          (m_bestCorrelation s) \<longrightarrow>
        m_bestCorrelation s' = m_bestCorrelation s
        \<and> m_bestCorrelationOffset s' = m_bestCorrelationOffset s)"
proof -
  from acq cor have ne: "s' \<noteq> s" by auto
  from DoRender_acquire [OF acq r] ne obtain data s1 where
    s1: "StartCorrelation env
           (logEvents [TraceAcquired]
              (s\<lparr> m_lastTriggerTimestamp := startTimestampOf data,
                  m_lastTriggerFs := startFemtosecondsOf data \<rparr>)) = Inr s1"
    and s': "s' = s1\<lparr> m_state := STATE_CORRELATE \<rparr>"
    by blast
  have b0: "m_bestCorrelation (logEvents [TraceAcquired]
      (s\<lparr> m_lastTriggerTimestamp := startTimestampOf data,
          m_lastTriggerFs := startFemtosecondsOf data \<rparr>)) \<noteq> NaN"
    using b by (simp add: logEvents_def)
  from cpu_trial_record [OF c s1 b0] show ?thesis
    by (simp add: s' logEvents_def)
qed

lemma scan_not_NaN:
  "fst best \<noteq> NaN \<Longrightarrow> fst (fold (crunchStep corrOut m) ixs best) \<noteq> NaN"
proof (induction ixs arbitrary: best)
  case Nil
  then show ?case by simp
next
  case (Cons i ixs)
  have "fst (crunchStep corrOut m i best) \<noteq> NaN"
    using Cons.prems dgt_not_NaN [of "corrOut i" "fst best"]
    by (simp add: crunchStep_def)
  from Cons.IH [OF this] show ?case by simp
qed

lemma crunchResults_not_NaN: "fst (crunchResults corrOut m) \<noteq> NaN"
  by (simp add: crunchResults_def scan_not_NaN)

lemma StartCorrelation_bestRecorded:
  assumes r: "StartCorrelation env s = Inr s'" and inv: "bestRecorded s"
  shows "bestRecorded s'"
  using StartCorrelation_cases [OF r]
proof (elim disjE exE conjE)
  fix upri usec
  assume "s' = collectSkew (m_timescale upri)
      (DoProcessWaveformUniformUnequalRateVulkan env upri usec s)"
  then show ?thesis
    by (simp add: bestRecorded_def collectSkew_def logEvents_def
        DoProcessWaveformUniformUnequalRateVulkan_def crunchResults_not_NaN)
next
  fix upri usec s1
  assume 1: "reduceCandidates (candidateUniform upri usec)
      (ompSchedule (ompRank env) (m_maxSkewSamples s)) s = Inr s1"
    and 2: "s' = collectSkew (m_timescale upri) (logEvents [TraceCpuEvaluated] s1)"
  from inv have "m_bestCorrelation s \<noteq> NaN" by (simp add: bestRecorded_def)
  from reduce_mono [OF 1 this] have "m_bestCorrelation s1 \<noteq> NaN"
    by (simp add: dle_not_NaN)
  then show ?thesis
    by (simp add: 2 bestRecorded_def collectSkew_def logEvents_def)
next
  fix spri ssec s1
  assume 1: "reduceCandidates (candidateSparse spri ssec)
      (ompSchedule (ompRank env) (m_maxSkewSamples s)) s = Inr s1"
    and 2: "s' = collectSkew (m_timescale spri) s1"
  from inv have "m_bestCorrelation s \<noteq> NaN" by (simp add: bestRecorded_def)
  from reduce_mono [OF 1 this] have "m_bestCorrelation s1 \<noteq> NaN"
    by (simp add: dle_not_NaN)
  then show ?thesis
    by (simp add: 2 bestRecorded_def collectSkew_def logEvents_def)
next
  assume "s' = logEvents [ErrorMixed] s"
  with inv show ?thesis by (simp add: bestRecorded_def logEvents_def)
qed

lemma DoRender_bestRecorded:
  assumes inv: "bestRecorded s" and r: "DoRender env s = Inr s'"
  shows "bestRecorded s'"
proof (cases "m_state s = STATE_ACQUIRE")
  case True
  from DoRender_acquire [OF True r] show ?thesis
  proof (elim disjE exE conjE)
    assume "s' = s" with inv show ?thesis by simp
  next
    fix data s1
    assume s1: "StartCorrelation env
        (logEvents [TraceAcquired]
           (s\<lparr> m_lastTriggerTimestamp := startTimestampOf data,
               m_lastTriggerFs := startFemtosecondsOf data \<rparr>)) = Inr s1"
      and s': "s' = s1\<lparr> m_state := STATE_CORRELATE \<rparr>"
    have "bestRecorded (logEvents [TraceAcquired]
        (s\<lparr> m_lastTriggerTimestamp := startTimestampOf data,
            m_lastTriggerFs := startFemtosecondsOf data \<rparr>))"
      using inv by (simp add: bestRecorded_def logEvents_def)
    from StartCorrelation_bestRecorded [OF s1 this] s' show ?thesis
      by (simp add: bestRecorded_def)
  qed
next
  case False
  from DoRender_quiet [OF False r] inv show ?thesis
    by (simp add: bestRecorded_def)
qed

lemma runFrames_bestRecorded:
  "runFrames envs s = Inr s' \<Longrightarrow> bestRecorded s \<Longrightarrow> bestRecorded s'"
proof (induction envs arbitrary: s)
  case Nil
  then show ?case by simp
next
  case (Cons env envs)
  from Cons.prems(1) obtain s1 where 1: "DoRender env s = Inr s1"
    and 2: "runFrames envs s1 = Inr s'"
    by (auto simp del: DoRender.simps split: sum.splits)
  from DoRender_bestRecorded [OF Cons.prems(2) 1] have "bestRecorded s1" .
  from Cons.IH [OF 2 this] show ?case .
qed

lemma ctor_bestRecorded: "bestRecorded (ScopeDeskewWizard_ctor\<lparr> m_maxSkewSamples := m \<rparr>)"
  by (simp add: bestRecorded_def ScopeDeskewWizard_ctor_def)

lemma gpu_trial_frame:
  assumes acq: "m_state s = STATE_ACQUIRE"
    and r: "DoRender env s = Inr s'"
    and cor: "m_state s' = STATE_CORRELATE"
    and p: "primaryData env = Some (Uniform upri)" "secondaryData env = Some (Uniform usec)"
    and caps: "g_hasShaderInt64 env \<and> g_hasShaderFloat64 env"
  shows "(m_bestCorrelation s', m_bestCorrelationOffset s')
      = crunchResults
          (corrOutAfterJob env (mkArgs upri usec (word_of_int (- m_maxSkewSamples s)))
             (m_samples upri) (m_samples usec))
          (m_maxSkewSamples s)
    \<and> m_correlations s' = m_correlations s @ [m_bestCorrelation s']
    \<and> m_skews s' = m_skews s @ [m_bestCorrelationOffset s' * m_timescale upri]"
proof -
  from acq cor have ne: "s' \<noteq> s" by auto
  from DoRender_acquire [OF acq r] ne obtain data s1 where
    s1: "StartCorrelation env
           (logEvents [TraceAcquired]
              (s\<lparr> m_lastTriggerTimestamp := startTimestampOf data,
                  m_lastTriggerFs := startFemtosecondsOf data \<rparr>)) = Inr s1"
    and s': "s' = s1\<lparr> m_state := STATE_CORRELATE \<rparr>"
    by blast
  from s1 p caps have "s1 = collectSkew (m_timescale upri)
      (DoProcessWaveformUniformUnequalRateVulkan env upri usec
         (logEvents [TraceAcquired]
            (s\<lparr> m_lastTriggerTimestamp := startTimestampOf data,
                m_lastTriggerFs := startFemtosecondsOf data \<rparr>)))"
    by (simp add: StartCorrelation.simps)
  then show ?thesis
    by (simp add: s' collectSkew_def logEvents_def DoProcessWaveformUniformUnequalRateVulkan_def)
qed

text \<open>
  C5, as amended.  Take any session from the constructed wizard (with any window size), whatever
  backends its trials ran on.  The running best correlation is a number and the last
  record of the history carries it; if no trial of the session ran on the accelerator,
  the history of correlations is non-decreasing.  When the next frame runs a trial on a
  CPU path, the running best pair is either left as it was or replaced by a pair with a
  strictly greater correlation, the record appended is made of the running best pair
  after the trial and of the timescale of this trial's primary waveform, and its
  correlation is not below that of the record before it; if no candidate of that trial
  compares greater than the running best, the pair stays.  When the next frame runs a
  trial on the accelerator, the pair is replaced by the result of the scan of the output
  buffer, whatever it was.  When a CPU trial is followed by a CPU trial none of whose
  candidates compares greater than the running best, the second trial records the
  correlation of the first, and as skew the best offset of the first times the
  timescale of its own primary waveform: the skew of the first if the two timescales
  are equal.
\<close>

theorem running_best_across_trials:
  assumes run: "runFrames envs (ScopeDeskewWizard_ctor\<lparr> m_maxSkewSamples := m \<rparr>) = Inr s"
  shows "m_bestCorrelation s \<noteq> NaN
    \<and> (m_correlations s \<noteq> [] \<longrightarrow> last (m_correlations s) = m_bestCorrelation s)
    \<and> (SubmitAndBlock \<notin> set (events s) \<longrightarrow> sorted_wrt dle (m_correlations s))
    \<and> (\<forall>env s' candidate timescale.
          m_state s = STATE_ACQUIRE \<and> DoRender env s = Inr s' \<and> m_state s' = STATE_CORRELATE
          \<and> cpuCandidate env = Some (candidate, timescale) \<longrightarrow>
          dle (m_bestCorrelation s) (m_bestCorrelation s')
          \<and> ((m_bestCorrelation s' = m_bestCorrelation s
                \<and> m_bestCorrelationOffset s' = m_bestCorrelationOffset s)
              \<or> dgt (m_bestCorrelation s') (m_bestCorrelation s))
          \<and> m_correlations s' = m_correlations s @ [m_bestCorrelation s']
          \<and> m_skews s' = m_skews s @ [m_bestCorrelationOffset s' * timescale]
          \<and> (m_correlations s \<noteq> [] \<longrightarrow>
                dle (last (m_correlations s)) (last (m_correlations s')))
          \<and> (noneGreater candidate (ompSchedule (ompRank env) (m_maxSkewSamples s))
                (m_bestCorrelation s) \<longrightarrow>
              m_bestCorrelation s' = m_bestCorrelation s
              \<and> m_bestCorrelationOffset s' = m_bestCorrelationOffset s
              \<and> m_correlations s' = m_correlations s @ [m_bestCorrelation s]
              \<and> m_skews s' = m_skews s @ [m_bestCorrelationOffset s * timescale]))
    \<and> (\<forall>env s' upri usec.
          m_state s = STATE_ACQUIRE \<and> DoRender env s = Inr s' \<and> m_state s' = STATE_CORRELATE
          \<and> primaryData env = Some (Uniform upri) \<and> secondaryData env = Some (Uniform usec)
          \<and> g_hasShaderInt64 env \<and> g_hasShaderFloat64 env \<longrightarrow>
          (m_bestCorrelation s', m_bestCorrelationOffset s')
            = crunchResults
                (corrOutAfterJob env (mkArgs upri usec (word_of_int (- m_maxSkewSamples s)))
                   (m_samples upri) (m_samples usec))
                (m_maxSkewSamples s)
          \<and> m_correlations s' = m_correlations s @ [m_bestCorrelation s']
          \<and> m_skews s' = m_skews s @ [m_bestCorrelationOffset s' * m_timescale upri])
    \<and> (\<forall>env1 s1 candidate1 timescale1 env s2 env2 s3 candidate2 timescale2.
          m_state s = STATE_ACQUIRE \<and> DoRender env1 s = Inr s1 \<and> m_state s1 = STATE_CORRELATE
          \<and> cpuCandidate env1 = Some (candidate1, timescale1)
          \<and> DoRender env s1 = Inr s2
          \<and> m_state s2 = STATE_ACQUIRE \<and> DoRender env2 s2 = Inr s3
          \<and> m_state s3 = STATE_CORRELATE
          \<and> cpuCandidate env2 = Some (candidate2, timescale2)
          \<and> noneGreater candidate2 (ompSchedule (ompRank env2) (m_maxSkewSamples s2))
                (m_bestCorrelation s2) \<longrightarrow>
          last (m_correlations s3) = last (m_correlations s1)
          \<and> last (m_skews s1) = m_bestCorrelationOffset s1 * timescale1
          \<and> last (m_skews s3) = m_bestCorrelationOffset s1 * timescale2
          \<and> (timescale1 = timescale2 \<longrightarrow> last (m_skews s3) = last (m_skews s1)))"
proof -
  from runFrames_bestRecorded [OF run ctor_bestRecorded]
  have b: "m_bestCorrelation s \<noteq> NaN"
    and lst: "m_correlations s \<noteq> [] \<longrightarrow> last (m_correlations s) = m_bestCorrelation s"
    by (simp_all add: bestRecorded_def)
  have srt: "SubmitAndBlock \<notin> set (events s) \<longrightarrow> sorted_wrt dle (m_correlations s)"
  proof
    assume "SubmitAndBlock \<notin> set (events s)"
    from runFrames_historyInv [OF run ctor_historyInv this]
    show "sorted_wrt dle (m_correlations s)" by (simp add: historyInv_def)
  qed
  have trial: "\<forall>env s' candidate timescale.
          m_state s = STATE_ACQUIRE \<and> DoRender env s = Inr s' \<and> m_state s' = STATE_CORRELATE
          \<and> cpuCandidate env = Some (candidate, timescale) \<longrightarrow>
          dle (m_bestCorrelation s) (m_bestCorrelation s')
          \<and> ((m_bestCorrelation s' = m_bestCorrelation s
                \<and> m_bestCorrelationOffset s' = m_bestCorrelationOffset s)
              \<or> dgt (m_bestCorrelation s') (m_bestCorrelation s))
          \<and> m_correlations s' = m_correlations s @ [m_bestCorrelation s']
          \<and> m_skews s' = m_skews s @ [m_bestCorrelationOffset s' * timescale]
          \<and> (m_correlations s \<noteq> [] \<longrightarrow>
                dle (last (m_correlations s)) (last (m_correlations s')))
          \<and> (noneGreater candidate (ompSchedule (ompRank env) (m_maxSkewSamples s))
                (m_bestCorrelation s) \<longrightarrow>
              m_bestCorrelation s' = m_bestCorrelation s
              \<and> m_bestCorrelationOffset s' = m_bestCorrelationOffset s
              \<and> m_correlations s' = m_correlations s @ [m_bestCorrelation s]
              \<and> m_skews s' = m_skews s @ [m_bestCorrelationOffset s * timescale])"
  proof (intro allI impI)
    fix env :: Env and s' :: ScopeDeskewWizard
      and candidate :: "64 word \<Rightarrow> error + (dbl \<times> nat)" and timescale :: "64 word"
    assume a: "m_state s = STATE_ACQUIRE \<and> DoRender env s = Inr s' \<and> m_state s' = STATE_CORRELATE
          \<and> cpuCandidate env = Some (candidate, timescale)"
    then have acq: "m_state s = STATE_ACQUIRE" and r: "DoRender env s = Inr s'"
      and cor: "m_state s' = STATE_CORRELATE"
      and c: "cpuCandidate env = Some (candidate, timescale)" by blast+
    note t = cpu_trial_frame [OF acq r cor c b]
    from t have l: "last (m_correlations s') = m_bestCorrelation s'" by simp
    from t lst have "m_correlations s \<noteq> [] \<longrightarrow>
        dle (last (m_correlations s)) (last (m_correlations s'))"
      unfolding l by simp
    with t
    show "dle (m_bestCorrelation s) (m_bestCorrelation s')
          \<and> ((m_bestCorrelation s' = m_bestCorrelation s
                \<and> m_bestCorrelationOffset s' = m_bestCorrelationOffset s)
              \<or> dgt (m_bestCorrelation s') (m_bestCorrelation s))
          \<and> m_correlations s' = m_correlations s @ [m_bestCorrelation s']
          \<and> m_skews s' = m_skews s @ [m_bestCorrelationOffset s' * timescale]
          \<and> (m_correlations s \<noteq> [] \<longrightarrow>
                dle (last (m_correlations s)) (last (m_correlations s')))
          \<and> (noneGreater candidate (ompSchedule (ompRank env) (m_maxSkewSamples s))
                (m_bestCorrelation s) \<longrightarrow>
              m_bestCorrelation s' = m_bestCorrelation s
              \<and> m_bestCorrelationOffset s' = m_bestCorrelationOffset s
              \<and> m_correlations s' = m_correlations s @ [m_bestCorrelation s]
              \<and> m_skews s' = m_skews s @ [m_bestCorrelationOffset s * timescale])"
      by auto
  qed
  have gpu: "\<forall>env s' upri usec.
          m_state s = STATE_ACQUIRE \<and> DoRender env s = Inr s' \<and> m_state s' = STATE_CORRELATE
          \<and> primaryData env = Some (Uniform upri) \<and> secondaryData env = Some (Uniform usec)
          \<and> g_hasShaderInt64 env \<and> g_hasShaderFloat64 env \<longrightarrow>
          (m_bestCorrelation s', m_bestCorrelationOffset s')
            = crunchResults
                (corrOutAfterJob env (mkArgs upri usec (word_of_int (- m_maxSkewSamples s)))
                   (m_samples upri) (m_samples usec))
                (m_maxSkewSamples s)
          \<and> m_correlations s' = m_correlations s @ [m_bestCorrelation s']
          \<and> m_skews s' = m_skews s @ [m_bestCorrelationOffset s' * m_timescale upri]"
  proof (intro allI impI)
    fix env :: Env and s' :: ScopeDeskewWizard and upri usec :: UniformAnalogWaveform
    assume a: "m_state s = STATE_ACQUIRE \<and> DoRender env s = Inr s' \<and> m_state s' = STATE_CORRELATE
          \<and> primaryData env = Some (Uniform upri) \<and> secondaryData env = Some (Uniform usec)
          \<and> g_hasShaderInt64 env \<and> g_hasShaderFloat64 env"
    then have acq: "m_state s = STATE_ACQUIRE" and r: "DoRender env s = Inr s'"
      and cor: "m_state s' = STATE_CORRELATE"
      and p: "primaryData env = Some (Uniform upri)" "secondaryData env = Some (Uniform usec)"
      and caps: "g_hasShaderInt64 env \<and> g_hasShaderFloat64 env" by blast+
    from gpu_trial_frame [OF acq r cor p caps]
    show "(m_bestCorrelation s', m_bestCorrelationOffset s')
            = crunchResults
                (corrOutAfterJob env (mkArgs upri usec (word_of_int (- m_maxSkewSamples s)))
                   (m_samples upri) (m_samples usec))
                (m_maxSkewSamples s)
          \<and> m_correlations s' = m_correlations s @ [m_bestCorrelation s']
          \<and> m_skews s' = m_skews s @ [m_bestCorrelationOffset s' * m_timescale upri]" .
  qed
  have pair: "\<forall>env1 s1 candidate1 timescale1 env s2 env2 s3 candidate2 timescale2.
          m_state s = STATE_ACQUIRE \<and> DoRender env1 s = Inr s1 \<and> m_state s1 = STATE_CORRELATE
          \<and> cpuCandidate env1 = Some (candidate1, timescale1)
          \<and> DoRender env s1 = Inr s2
          \<and> m_state s2 = STATE_ACQUIRE \<and> DoRender env2 s2 = Inr s3
          \<and> m_state s3 = STATE_CORRELATE
          \<and> cpuCandidate env2 = Some (candidate2, timescale2)
          \<and> noneGreater candidate2 (ompSchedule (ompRank env2) (m_maxSkewSamples s2))
                (m_bestCorrelation s2) \<longrightarrow>
          last (m_correlations s3) = last (m_correlations s1)
          \<and> last (m_skews s1) = m_bestCorrelationOffset s1 * timescale1
          \<and> last (m_skews s3) = m_bestCorrelationOffset s1 * timescale2
          \<and> (timescale1 = timescale2 \<longrightarrow> last (m_skews s3) = last (m_skews s1))"
  proof (intro allI impI)
    fix env1 env env2 :: Env and s1 s2 s3 :: ScopeDeskewWizard
      and candidate1 candidate2 :: "64 word \<Rightarrow> error + (dbl \<times> nat)"
      and timescale1 timescale2 :: "64 word"
    assume a: "m_state s = STATE_ACQUIRE \<and> DoRender env1 s = Inr s1 \<and> m_state s1 = STATE_CORRELATE
          \<and> cpuCandidate env1 = Some (candidate1, timescale1)
          \<and> DoRender env s1 = Inr s2
          \<and> m_state s2 = STATE_ACQUIRE \<and> DoRender env2 s2 = Inr s3
          \<and> m_state s3 = STATE_CORRELATE
          \<and> cpuCandidate env2 = Some (candidate2, timescale2)
          \<and> noneGreater candidate2 (ompSchedule (ompRank env2) (m_maxSkewSamples s2))
                (m_bestCorrelation s2)"
    then have acq: "m_state s = STATE_ACQUIRE" and r1: "DoRender env1 s = Inr s1"
      and cor1: "m_state s1 = STATE_CORRELATE"
      and c1: "cpuCandidate env1 = Some (candidate1, timescale1)"
      and r: "DoRender env s1 = Inr s2"
      and acq2: "m_state s2 = STATE_ACQUIRE" and r2: "DoRender env2 s2 = Inr s3"
      and cor3: "m_state s3 = STATE_CORRELATE"
      and c2: "cpuCandidate env2 = Some (candidate2, timescale2)"
      and n: "noneGreater candidate2 (ompSchedule (ompRank env2) (m_maxSkewSamples s2))
            (m_bestCorrelation s2)"
      by blast+
    note t1 = cpu_trial_frame [OF acq r1 cor1 c1 b]
    from t1 have "dle (m_bestCorrelation s) (m_bestCorrelation s1)" by blast
    then have b1: "m_bestCorrelation s1 \<noteq> NaN" by (simp add: dle_not_NaN)
    from cor1 have "m_state s1 \<noteq> STATE_ACQUIRE" by simp
    note q = DoRender_quiet [OF this r]
    from q b1 have b2: "m_bestCorrelation s2 \<noteq> NaN" by simp
    note t2 = cpu_trial_frame [OF acq2 r2 cor3 c2 b2]
    from t1 t2 q n
    show "last (m_correlations s3) = last (m_correlations s1)
          \<and> last (m_skews s1) = m_bestCorrelationOffset s1 * timescale1
          \<and> last (m_skews s3) = m_bestCorrelationOffset s1 * timescale2
          \<and> (timescale1 = timescale2 \<longrightarrow> last (m_skews s3) = last (m_skews s1))"
      by simp
  qed
  from b lst srt trial gpu pair show ?thesis by (intro conjI)
qed

theorem running_best_witness:
  "\<not> isl (runFrames fiveClicks smallWizard)
   \<and> m_state (projr (runFrames fiveClicks smallWizard)) = STATE_ACQUIRE
   \<and> cpuCandidate (dataFrame 1)
       = Some (candidateUniform (uniformWaveform 1 0 1 [Fin 0, Fin 1]) uSec, 1)
   \<and> cpuCandidate staleFrame = Some (candidateUniform uPriSecond uSecSecond, 1)
   \<and> cpuCandidate slowFrame = Some (candidateUniform uPriSlow uSecSecond, 1000)
   \<and> map (candidateUniform uPriSecond uSecSecond) (searchWindow 2)
       = [Inr (Fin 0, 0), Inr (Fin 1, 1), Inr (Fin 1, 2), Inr (Fin 1, 2)]
   \<and> m_correlations (projr (runFrames (fiveClicks @ [dataFrame 1]) smallWizard)) = [Fin 5]
   \<and> m_skews (projr (runFrames (fiveClicks @ [dataFrame 1]) smallWizard)) = [- 1]
   \<and> m_bestCorrelationOffset (projr (runFrames (fiveClicks @ [dataFrame 1]) smallWizard)) = - 1
   \<and> m_correlations
        (projr (runFrames (fiveClicks @ [dataFrame 1, idleFrame, staleFrame]) smallWizard))
       = [Fin 5, Fin 5]
   \<and> m_skews
        (projr (runFrames (fiveClicks @ [dataFrame 1, idleFrame, staleFrame]) smallWizard))
       = [- 1, - 1]
   \<and> last (m_correlations
        (projr (runFrames (fiveClicks @ [dataFrame 1, idleFrame, staleFrame]) smallWizard)))
       = last (m_correlations (projr (runFrames (fiveClicks @ [dataFrame 1]) smallWizard)))
   \<and> last (m_skews
        (projr (runFrames (fiveClicks @ [dataFrame 1, idleFrame, staleFrame]) smallWizard)))
       = last (m_skews (projr (runFrames (fiveClicks @ [dataFrame 1]) smallWizard)))
   \<and> last (m_skews
        (projr (runFrames (fiveClicks @ [dataFrame 1, idleFrame, slowFrame]) smallWizard)))
       = m_bestCorrelationOffset (projr (runFrames (fiveClicks @ [dataFrame 1]) smallWizard))
           * 1000
   \<and> sorted_wrt dle (m_correlations
        (projr (runFrames (fiveClicks @ [dataFrame 1, idleFrame, staleFrame]) smallWizard)))
   \<and> m_bestCorrelation (projr (runFrames (fiveClicks @ [gpuFrame]) smallWizard)) = Fin 3
   \<and> m_bestCorrelationOffset (projr (runFrames (fiveClicks @ [gpuFrame]) smallWizard)) = - 2"
proof -
  let ?s = "projr (runFrames fiveClicks smallWizard)"
  let ?s1 = "projr (runFrames (fiveClicks @ [dataFrame 1]) smallWizard)"
  let ?s2 = "projr (runFrames (fiveClicks @ [dataFrame 1, idleFrame]) smallWizard)"
  let ?s3 = "projr (runFrames (fiveClicks @ [dataFrame 1, idleFrame, staleFrame]) smallWizard)"
  let ?s4 = "projr (runFrames (fiveClicks @ [dataFrame 1, idleFrame, slowFrame]) smallWizard)"
  let ?g = "projr (runFrames (fiveClicks @ [gpuFrame]) smallWizard)"
  have r: "\<not> isl (runFrames fiveClicks smallWizard)" by code_simp
  then have run: "runFrames fiveClicks (ScopeDeskewWizard_ctor\<lparr> m_maxSkewSamples := 2 \<rparr>)
      = Inr ?s"
    by (simp add: smallWizard_def)
  have r3: "\<not> isl (runFrames (fiveClicks @ [dataFrame 1, idleFrame, staleFrame]) smallWizard)"
    by code_simp
  then have run3: "runFrames (fiveClicks @ [dataFrame 1, idleFrame, staleFrame])
      (ScopeDeskewWizard_ctor\<lparr> m_maxSkewSamples := 2 \<rparr>) = Inr ?s3"
    by (simp add: smallWizard_def del: runFrames.simps)
  have cpu3: "SubmitAndBlock \<notin> set (events ?s3)" by code_simp
  have acq: "m_state ?s = STATE_ACQUIRE" by code_simp
  have f1: "DoRender (dataFrame 1) ?s = Inr ?s1" by code_simp
  have f2: "DoRender idleFrame ?s1 = Inr ?s2" by code_simp
  have f3: "DoRender staleFrame ?s2 = Inr ?s3" by code_simp
  have f4: "DoRender slowFrame ?s2 = Inr ?s4" by code_simp
  have fg: "DoRender gpuFrame ?s = Inr ?g" by code_simp
  have st: "m_state ?s1 = STATE_CORRELATE \<and> m_state ?s2 = STATE_ACQUIRE
      \<and> m_state ?s3 = STATE_CORRELATE \<and> m_state ?s4 = STATE_CORRELATE
      \<and> m_state ?g = STATE_CORRELATE" by code_simp
  have c1: "cpuCandidate (dataFrame 1)
      = Some (candidateUniform (uniformWaveform 1 0 1 [Fin 0, Fin 1]) uSec, 1)"
    by (simp add: cpuCandidate_def dataFrame_def frame_def uniformWaveform_def)
  have c2: "cpuCandidate staleFrame = Some (candidateUniform uPriSecond uSecSecond, 1)"
    by (simp add: cpuCandidate_def staleFrame_def frame_def uPriSecond_def uniformWaveform_def)
  have c4: "cpuCandidate slowFrame = Some (candidateUniform uPriSlow uSecSecond, 1000)"
    by (simp add: cpuCandidate_def slowFrame_def frame_def uPriSlow_def uniformWaveform_def)
  have gp: "primaryData gpuFrame = Some (Uniform uPri)
      \<and> secondaryData gpuFrame = Some (Uniform uSec)
      \<and> g_hasShaderInt64 gpuFrame \<and> g_hasShaderFloat64 gpuFrame"
    by (simp add: gpuFrame_def frame_def)
  have v: "map (candidateUniform uPriSecond uSecSecond) (searchWindow 2)
      = [Inr (Fin 0, 0), Inr (Fin 1, 1), Inr (Fin 1, 2), Inr (Fin 1, 2)]" by code_simp
  have n: "noneGreater (candidateUniform uPriSecond uSecSecond)
      (ompSchedule (ompRank staleFrame) (m_maxSkewSamples ?s2)) (m_bestCorrelation ?s2)"
    by code_simp
  have n4: "noneGreater (candidateUniform uPriSlow uSecSecond)
      (ompSchedule (ompRank slowFrame) (m_maxSkewSamples ?s2)) (m_bestCorrelation ?s2)"
    by code_simp
  have h: "m_correlations ?s1 = [Fin 5] \<and> m_skews ?s1 = [- 1]
      \<and> m_bestCorrelationOffset ?s1 = - 1
      \<and> m_correlations ?s3 = [Fin 5, Fin 5] \<and> m_skews ?s3 = [- 1, - 1]" by code_simp
  have cr: "crunchResults
      (corrOutAfterJob gpuFrame (mkArgs uPri uSec (word_of_int (- m_maxSkewSamples ?s)))
         (m_samples uPri) (m_samples uSec))
      (m_maxSkewSamples ?s) = (Fin 3, - 2)"
    by code_simp
  note t = running_best_across_trials [OF run]
  from t acq f1 f2 f3 st c1 c2 n
  have 1: "last (m_correlations ?s3) = last (m_correlations ?s1)
      \<and> last (m_skews ?s3) = last (m_skews ?s1)"
    by blast
  from t acq f1 f2 f4 st c1 c4 n4
  have 2: "last (m_skews ?s4) = m_bestCorrelationOffset ?s1 * 1000"
    by blast
  from running_best_across_trials [OF run3] cpu3
  have 3: "sorted_wrt dle (m_correlations ?s3)" by blast
  from t acq fg st gp
  have "(m_bestCorrelation ?g, m_bestCorrelationOffset ?g)
      = crunchResults
          (corrOutAfterJob gpuFrame (mkArgs uPri uSec (word_of_int (- m_maxSkewSamples ?s)))
             (m_samples uPri) (m_samples uSec))
          (m_maxSkewSamples ?s)"
    by blast
  then have 4: "m_bestCorrelation ?g = Fin 3 \<and> m_bestCorrelationOffset ?g = - 2"
    unfolding cr by simp
  from r acq c1 c2 c4 v h 1 2 3 4 show ?thesis by blast
qed

text \<open>
  Two sessions on the small wizard.  In the first, both trials run on the CPU path and no
  candidate of the second compares greater than the running best 5 of the first; the
  primary of the first has the timescale 1, that of the second the timescale 1000: the
  second trial records the correlation 5 of the first but the skew \<open>-1000\<close>, not the skew
  \<open>-1\<close> of the first.  In the second, the first and the third trial run on the sparse CPU
  path and the second on the accelerator: the records are 5, 3 and 4, so the records of
  the CPU trials fall from 5 to 4.
\<close>

theorem running_best_counterexample:
  "map (candidateUniform uPriSlow uSecSecond) (searchWindow 2)
     = [Inr (Fin 0, 0), Inr (Fin 1, 1), Inr (Fin 0, 1), Inr (Fin 0, 0)]
   \<and> SubmitAndBlock
       \<notin> set (events (projr (runFrames (fiveClicks @ [dataFrame 1, idleFrame, slowFrame])
                                smallWizard)))
   \<and> m_correlations
        (projr (runFrames (fiveClicks @ [dataFrame 1, idleFrame, slowFrame]) smallWizard))
       = [Fin 5, Fin 5]
   \<and> m_skews
        (projr (runFrames (fiveClicks @ [dataFrame 1, idleFrame, slowFrame]) smallWizard))
       = [- 1, - 1000]
   \<and> map (candidateSparse sPriThird sSecThird) (searchWindow 2)
       = [Inr (Fin 0, 0), Inr (Fin 4, 1), Inr (Fin 4, 2), Inr (Fin 4, 2)]
   \<and> events (projr (runFrames mixedBackends smallWizard))
       = [TraceStarting, ArmSingle, TraceAcquired, TraceBest,
          TraceAcquiringNext, ArmSingle, TraceAcquired, SubmitAndBlock, TraceGpuEvaluated,
          TraceBest,
          TraceAcquiringNext, ArmSingle, TraceAcquired, TraceBest]
   \<and> m_correlations (projr (runFrames mixedBackends smallWizard)) = [Fin 5, Fin 3, Fin 4]
   \<and> \<not> dle (Fin 5) (Fin 4)
   \<and> \<not> sorted_wrt dle (m_correlations (projr (runFrames mixedBackends smallWizard)))"
  by code_simp

end
